theory Spec2Isabelle
  imports Complex_Main "HOL-Library.AList"
begin

section \<open>Python dictionaries and strings\<close>

text \<open>
  A Python \<open>dict\<close> with string keys and values is an association list with distinct
  keys, in insertion order. \<open>d[k] = v\<close> replaces the value in place or appends the
  pair; \<open>d.update(other)\<close> does so for every pair of \<open>other\<close>, in order;
  \<open>d.pop(k, None)\<close> removes the key when it is there.
\<close>

type_synonym dict = "(string \<times> string) list"

definition dict_update :: "dict \<Rightarrow> dict \<Rightarrow> dict" where
  "dict_update d other = fold (\<lambda>kv acc. AList.update (fst kv) (snd kv) acc) other d"

definition dict_get :: "dict \<Rightarrow> string \<Rightarrow> string \<Rightarrow> string" where
  "dict_get d k dflt = (case map_of d k of None \<Rightarrow> dflt | Some v \<Rightarrow> v)"

text \<open>\<open>s.startswith(p)\<close> and the substring test \<open>p in s\<close>.\<close>

fun startswith :: "string \<Rightarrow> string \<Rightarrow> bool" where
  "startswith s [] = True"
| "startswith [] (p # ps) = False"
| "startswith (c # cs) (p # ps) = (c = p \<and> startswith cs ps)"

fun str_contains :: "string \<Rightarrow> string \<Rightarrow> bool" where
  "str_contains p [] = (p = [])"
| "str_contains p (c # cs) = (startswith (c # cs) p \<or> str_contains p cs)"

section \<open>Constants.py\<close>

definition BASE_URL :: string where
  "BASE_URL = ''https://vicapipro.veticareapp.com/v1/api''"

text \<open>
  Every entry of \<open>ENDPOINTS\<close> has an \<open>endpoint\<close> URL; all but \<open>signin\<close> have a
  \<open>params\<close> dictionary. The inner dictionaries are mutable objects shared by every
  reader of the module, so an entry holds the address of its \<open>params\<close> object and
  the objects themselves live in the store of the \<open>world\<close> below.
\<close>

record endpoint_config =
  endpoint :: string
  params_ref :: "nat option"

definition ENDPOINTS :: "(string \<times> endpoint_config) list" where
  "ENDPOINTS =
    [(''signin'', \<lparr>endpoint = BASE_URL @ ''/signin'', params_ref = None\<rparr>),
     (''clients'', \<lparr>endpoint = BASE_URL @ ''/exportreports/clientsreport'', params_ref = Some 0\<rparr>),
     (''services'', \<lparr>endpoint = BASE_URL @ ''/exportreports/servicesReport'', params_ref = Some 1\<rparr>),
     (''pets'', \<lparr>endpoint = BASE_URL @ ''/exportreports/petReport'', params_ref = Some 2\<rparr>),
     (''revenue'', \<lparr>endpoint = BASE_URL @ ''/exportreports/revenue'', params_ref = Some 3\<rparr>),
     (''expenses'', \<lparr>endpoint = BASE_URL @ ''/exportreports/expenses'', params_ref = Some 4\<rparr>)]"

definition HEADERS :: dict where
  "HEADERS =
    [(''Content-Type'', ''application/json''),
     (''Accept'', ''application/json, application/vnd.openxmlformats-officedocument.spreadsheetml.sheet'')]"

section \<open>ingest\_data.py: the vendor API client\<close>

subsection \<open>Requests, responses and the world\<close>

datatype json =
  JNull | JBool bool | JNum rat | JStr string | JList "json list" | JObj "(string \<times> json) list"

record request =
  req_url :: string
  req_headers :: dict
  req_params :: dict

text \<open>
  What the client reads of a response: the status code, the headers, the body bytes and
  what \<open>response.json()\<close> gives (\<open>None\<close> when it raises because the body does not
  decode).
\<close>

record response =
  status_code :: int
  resp_headers :: dict
  content :: string
  json_body :: "json option"

text \<open>
  The world holds the store of dictionary objects (\<open>heap\<close>, with \<open>next_addr\<close> the
  first address never allocated) and the list of GET requests issued so far.
  \<open>init_world\<close> is the store right after \<open>Constants\<close> is imported.
\<close>

record world =
  heap :: "nat \<Rightarrow> dict"
  next_addr :: nat
  sent :: "request list"

definition init_world :: world where
  "init_world =
    \<lparr>heap = (\<lambda>a.
        if a = 0 then [(''CreatedAtFrom'', ''2025-12-27''), (''CreatedAtTo'', ''2025-12-27''), (''IsActive'', ''true'')]
        else if a = 1 then [(''CreatedAtFrom'', ''2025-12-27''), (''CreatedAtTo'', ''2025-12-27''), (''IsActive'', ''true''),
                            (''userId'', ''''), (''ServiceId'', ''''), (''ServiceCategoryId'', '''')]
        else if a = 2 then [(''CreatedAtFrom'', ''2025-12-27''), (''CreatedAtTo'', ''2025-12-27''), (''IsActive'', ''true''),
                            (''SpecieId'', '''')]
        else if a = 3 then [(''CreatedAtFrom'', ''2025-12-27''), (''CreatedAtTo'', ''2025-12-27''), (''Type'', '''')]
        else if a = 4 then [(''CreatedAtFrom'', ''2025-12-27''), (''CreatedAtTo'', ''2025-12-27'')]
        else []),
     next_addr = 5,
     sent = []\<rparr>"

text \<open>Every \<open>params\<close> object of the configuration is an allocated object of the store.\<close>

definition config_allocated :: "world \<Rightarrow> bool" where
  "config_allocated w =
     list_all (\<lambda>kc. case params_ref (snd kc) of None \<Rightarrow> True | Some a \<Rightarrow> a < next_addr w) ENDPOINTS"

text \<open>A new dictionary object with the given contents: \<open>{}\<close> and \<open>d.copy()\<close>.\<close>

definition alloc :: "world \<Rightarrow> dict \<Rightarrow> nat \<times> world" where
  "alloc w d = (next_addr w, w\<lparr>heap := (heap w)(next_addr w := d), next_addr := Suc (next_addr w)\<rparr>)"

subsection \<open>fetch\_data\<close>

datatype data_package = FilePackage string | JsonPackage json

text \<open>
  Step 2 of \<open>fetch_data\<close>: \<open>params = config.get("params", {}).copy()\<close> allocates a
  copy of the stored defaults (of a new empty dictionary when the entry has none), and
  \<open>params.update(dynamic_params)\<close> mutates the copy. \<open>stored_defaults\<close> reads what
  \<open>config.get("params", {})\<close> holds in a given world.
\<close>

definition stored_defaults :: "world \<Rightarrow> endpoint_config \<Rightarrow> dict" where
  "stored_defaults w config = (case params_ref config of None \<Rightarrow> [] | Some a \<Rightarrow> heap w a)"

definition prepare_params :: "world \<Rightarrow> endpoint_config \<Rightarrow> dict \<Rightarrow> nat \<times> world" where
  "prepare_params w config dynamic_params =
     (let (src, w1) = (case params_ref config of
                         None \<Rightarrow> alloc w []
                       | Some a \<Rightarrow> (a, w));
          (p, w2) = alloc w1 (heap w1 src)
      in (p, w2\<lparr>heap := (heap w2)(p := dict_update (heap w2 p) dynamic_params)\<rparr>))"

text \<open>
  Step 3: \<open>HEADERS.copy()\<close>, the bearer token added, \<open>Content-Type\<close> popped.
\<close>

definition auth_headers :: "string \<Rightarrow> dict" where
  "auth_headers token =
     AList.delete ''Content-Type'' (AList.update ''Authorization'' (''Bearer '' @ token) HEADERS)"

text \<open>
  The branch on a response (lines 77 to 93). A call of \<open>response.json()\<close> that raises
  is caught by the \<open>except Exception\<close> of \<open>fetch_data\<close>, which returns \<open>None\<close>.
\<close>

definition handle_response :: "response \<Rightarrow> data_package option" where
  "handle_response r =
     (if status_code r = 200 then
        (let content_type = dict_get (resp_headers r) ''Content-Type'' '''' in
         if startswith (content r) ''PK'' then Some (FilePackage (content r))
         else if str_contains ''json'' content_type then
           (case json_body r of None \<Rightarrow> None | Some v \<Rightarrow> Some (JsonPackage v))
         else Some (FilePackage (content r)))
      else None)"

text \<open>
  \<open>fetch_data\<close>. The network is a parameter: \<open>net req\<close> is the response to a GET, or
  \<open>None\<close> when \<open>requests.get\<close> raises. A request counts as issued as soon as
  \<open>requests.get\<close> is called.
\<close>

definition fetch_data ::
  "(request \<Rightarrow> response option) \<Rightarrow> world \<Rightarrow> string \<Rightarrow> string \<Rightarrow> dict \<Rightarrow> data_package option \<times> world" where
  "fetch_data net w token endpoint_key dynamic_params =
     (case map_of ENDPOINTS endpoint_key of
        None \<Rightarrow> (None, w)
      | Some config \<Rightarrow>
          (let url = endpoint config;
               (p, w1) = prepare_params w config dynamic_params;
               req = \<lparr>req_url = url, req_headers = auth_headers token, req_params = heap w1 p\<rparr>;
               w2 = w1\<lparr>sent := sent w1 @ [req]\<rparr>
           in case net req of
                None \<Rightarrow> (None, w2)
              | Some r \<Rightarrow> (handle_response r, w2)))"

section \<open>Tables: the data model of the normalizer and of the dashboard\<close>

text \<open>
  A calendar date compares as Python's \<open>datetime.date\<close> does: by year, then month,
  then day. A timestamp is a date and the time of day; \<open>.dt.date\<close> reads the date.
\<close>

datatype date = Date (year: nat) (month: nat) (day: nat)

definition date_le :: "date \<Rightarrow> date \<Rightarrow> bool" where
  "date_le a b =
     (year a < year b \<or>
      (year a = year b \<and> (month a < month b \<or> (month a = month b \<and> day a \<le> day b))))"

datatype timestamp = Timestamp (ts_date: date) (ts_nanos: nat)

text \<open>
  A cell of a sheet or of a data frame: empty (\<open>NaN\<close>, \<open>NaT\<close>), a text, a number or a
  timestamp. A finite float and an integer are both exact rationals.
\<close>

datatype cell = Missing | Txt string | Num rat | Stamp timestamp

record dataframe =
  columns :: "string list"
  rows :: "cell list list"

datatype error = FileNotFoundError | EmptyDataError | ParserError | ValueError | KeyError
  | AttributeError | TypeError | OSError

text \<open>
  The conversions pandas implements and the repository only calls are parameters of
  the model: how a number and a timestamp print under \<open>astype(str)\<close>, which texts
  \<open>to_numeric\<close> and \<open>to_datetime\<close> can read (\<open>None\<close>: they cannot), which numbers
  \<open>to_datetime\<close> accepts as an epoch offset, and the bytes \<open>to_csv(index=False)\<close>
  writes for a frame.
\<close>

record pandas =
  str_of_num :: "rat \<Rightarrow> string"
  str_of_stamp :: "timestamp \<Rightarrow> string"
  numeric_of_str :: "string \<Rightarrow> rat option"
  datetime_of_str :: "string \<Rightarrow> timestamp option"
  datetime_of_num :: "rat \<Rightarrow> timestamp option"
  csv_of :: "dataframe \<Rightarrow> string"

subsection \<open>Element-wise conversions\<close>

text \<open>\<open>astype(str)\<close>: an empty cell becomes the text \<open>nan\<close>.\<close>

fun astype_str :: "pandas \<Rightarrow> cell \<Rightarrow> string" where
  "astype_str L Missing = ''nan''"
| "astype_str L (Txt s) = s"
| "astype_str L (Num q) = str_of_num L q"
| "astype_str L (Stamp t) = str_of_stamp L t"

text \<open>\<open>s.split(sep)\<close> for a one-character separator: never the empty list.\<close>

fun str_split :: "char \<Rightarrow> string \<Rightarrow> string list" where
  "str_split sep [] = [[]]"
| "str_split sep (c # cs) =
     (if c = sep then [] # str_split sep cs
      else (case str_split sep cs of
              [] \<Rightarrow> [[c]]
            | p # ps \<Rightarrow> (c # p) # ps))"

text \<open>\<open>.str[0]\<close> on a list: its first element, \<open>NaN\<close> for an empty list.\<close>

fun str_get0 :: "string list \<Rightarrow> cell" where
  "str_get0 [] = Missing"
| "str_get0 (p # ps) = Txt p"

text \<open>The phone normalization \<open>.astype(str).str.split(".").str[0]\<close>.\<close>

definition phone_digits :: "pandas \<Rightarrow> cell \<Rightarrow> cell" where
  "phone_digits L c = str_get0 (str_split (CHR ''.'') (astype_str L c))"

text \<open>
  \<open>pd.to_datetime\<close> keeps a timestamp and an empty cell (\<open>NaT\<close>) and raises on a value
  it cannot read.
\<close>

fun to_datetime :: "pandas \<Rightarrow> cell \<Rightarrow> error + cell" where
  "to_datetime L Missing = Inr Missing"
| "to_datetime L (Stamp t) = Inr (Stamp t)"
| "to_datetime L (Txt s) =
     (case datetime_of_str L s of None \<Rightarrow> Inl ValueError | Some t \<Rightarrow> Inr (Stamp t))"
| "to_datetime L (Num q) =
     (case datetime_of_num L q of None \<Rightarrow> Inl ValueError | Some t \<Rightarrow> Inr (Stamp t))"

text \<open>
  \<open>pd.to_numeric(errors='coerce')\<close> never raises: a value it cannot read becomes
  \<open>NaN\<close>.
\<close>

fun to_numeric :: "pandas \<Rightarrow> cell \<Rightarrow> cell" where
  "to_numeric L Missing = Missing"
| "to_numeric L (Num q) = Num q"
| "to_numeric L (Txt s) = (case numeric_of_str L s of None \<Rightarrow> Missing | Some q \<Rightarrow> Num q)"
| "to_numeric L (Stamp t) = Missing"

subsection \<open>Column assignment and row filters\<close>

fun col_pos :: "string list \<Rightarrow> string \<Rightarrow> nat option" where
  "col_pos [] c = None"
| "col_pos (x # xs) c = (if x = c then Some 0 else map_option Suc (col_pos xs c))"

text \<open>A conversion applied to every row; the first failure is the result.\<close>

fun map_err :: "('a \<Rightarrow> error + 'b) \<Rightarrow> 'a list \<Rightarrow> error + 'b list" where
  "map_err f [] = Inr []"
| "map_err f (x # xs) =
     (case f x of
        Inl e \<Rightarrow> Inl e
      | Inr y \<Rightarrow> (case map_err f xs of Inl e \<Rightarrow> Inl e | Inr ys \<Rightarrow> Inr (y # ys)))"

text \<open>\<open>df[c] = f(df[c])\<close>: \<open>KeyError\<close> when the frame has no column \<open>c\<close>.\<close>

definition assign_col :: "(cell \<Rightarrow> error + cell) \<Rightarrow> string \<Rightarrow> dataframe \<Rightarrow> error + dataframe" where
  "assign_col f c df =
     (case col_pos (columns df) c of
        None \<Rightarrow> Inl KeyError
      | Some i \<Rightarrow>
          (case map_err (\<lambda>r. case f (r ! i) of Inl e \<Rightarrow> Inl e | Inr v \<Rightarrow> Inr (r[i := v])) (rows df) of
             Inl e \<Rightarrow> Inl e
           | Inr rs \<Rightarrow> Inr (df\<lparr>rows := rs\<rparr>)))"

definition bind_err :: "error + 'a \<Rightarrow> ('a \<Rightarrow> error + 'b) \<Rightarrow> error + 'b" where
  "bind_err m f = (case m of Inl e \<Rightarrow> Inl e | Inr x \<Rightarrow> f x)"

text \<open>\<open>df.dropna()\<close> and \<open>df.dropna(subset=[c])\<close>.\<close>

definition dropna :: "dataframe \<Rightarrow> dataframe" where
  "dropna df = df\<lparr>rows := filter (\<lambda>r. Missing \<notin> set r) (rows df)\<rparr>"

definition dropna_subset :: "string \<Rightarrow> dataframe \<Rightarrow> error + dataframe" where
  "dropna_subset c df =
     (case col_pos (columns df) c of
        None \<Rightarrow> Inl KeyError
      | Some i \<Rightarrow> Inr (df\<lparr>rows := filter (\<lambda>r. r ! i \<noteq> Missing) (rows df)\<rparr>))"

text \<open>\<open>df.iloc[:-2]\<close>: all rows but the last two (none of a frame of fewer than two).\<close>

definition iloc_drop_last2 :: "dataframe \<Rightarrow> dataframe" where
  "iloc_drop_last2 df = df\<lparr>rows := take (length (rows df) - 2) (rows df)\<rparr>"

section \<open>process\_data.py: the normalizer\<close>

subsection \<open>Files\<close>

text \<open>
  A path is a directory and a file name (\<open>os.path.join(dir, name)\<close>). A file is a
  spreadsheet, given by the rows of its sheet, or any other bytes. A directory is
  writable when \<open>os.makedirs(dir, exist_ok=True)\<close> and a write into it succeed.
\<close>

datatype file_content = Spreadsheet "cell list list" | Bytes string

record filesystem =
  files :: "string \<times> string \<Rightarrow> file_content option"
  is_dir :: "string \<Rightarrow> bool"
  writable :: "string \<Rightarrow> bool"

text \<open>
  \<open>pd.read_excel(path, skiprows=k, header=..., usecols=[...])\<close>, as the rows of the
  frame it returns (the column labels are overwritten right after every call).
  The first \<open>k\<close> rows are skipped; with the default \<open>header=0\<close> the next row holds
  the labels, with \<open>header=None\<close> the data starts at once. The first remaining line
  fixes the width of the sheet: with no such line the frame has no columns, and
  assigning the column names raises, as does a position of \<open>usecols\<close> beyond the
  width. A row shorter than the width is padded with empty cells.
\<close>

definition pick_cols :: "nat list \<Rightarrow> cell list \<Rightarrow> cell list" where
  "pick_cols usecols r = map (\<lambda>i. if i < length r then r ! i else Missing) usecols"

definition read_excel ::
  "filesystem \<Rightarrow> string \<times> string \<Rightarrow> nat \<Rightarrow> bool \<Rightarrow> nat list \<Rightarrow> error + cell list list" where
  "read_excel fs path skiprows header usecols =
     (case files fs path of
        None \<Rightarrow> Inl FileNotFoundError
      | Some (Bytes b) \<Rightarrow> Inl ValueError
      | Some (Spreadsheet sheet) \<Rightarrow>
          (case drop skiprows sheet of
             [] \<Rightarrow> Inl EmptyDataError
           | first # rest \<Rightarrow>
               if \<exists>i \<in> set usecols. length first \<le> i then Inl ParserError
               else Inr (map (pick_cols usecols) (if header then rest else first # rest))))"

definition makedirs :: "filesystem \<Rightarrow> string \<Rightarrow> error + filesystem" where
  "makedirs fs d = (if writable fs d then Inr (fs\<lparr>is_dir := (is_dir fs)(d := True)\<rparr>) else Inl OSError)"

definition to_csv :: "pandas \<Rightarrow> dataframe \<Rightarrow> filesystem \<Rightarrow> string \<times> string \<Rightarrow> error + filesystem" where
  "to_csv L df fs path =
     (if writable fs (fst path) then Inr (fs\<lparr>files := (files fs)(path := Some (Bytes (csv_of L df)))\<rparr>)
      else Inl OSError)"

text \<open>
  The tail of every cleaning operation: \<open>os.makedirs\<close>, \<open>to_csv\<close>, \<open>return df\<close>, inside
  the \<open>try\<close> whose handlers return \<open>None\<close>.
\<close>

definition save_cleaned ::
  "pandas \<Rightarrow> filesystem \<Rightarrow> string \<Rightarrow> string \<Rightarrow> dataframe \<Rightarrow> dataframe option \<times> filesystem" where
  "save_cleaned L fs clean_data_dir name df =
     (case makedirs fs clean_data_dir of
        Inl e \<Rightarrow> (None, fs)
      | Inr fs1 \<Rightarrow>
          (case to_csv L df fs1 (clean_data_dir, name) of
             Inl e \<Rightarrow> (None, fs1)
           | Inr fs2 \<Rightarrow> (Some df, fs2)))"

subsection \<open>The four cleaning operations\<close>

text \<open>Lines 34 to 36: the clients frame from the rows read.\<close>

definition clients_frame :: "pandas \<Rightarrow> cell list list \<Rightarrow> error + dataframe" where
  "clients_frame L body =
     bind_err (assign_col (to_datetime L) ''creation_date''
                 \<lparr>columns = [''name'', ''id'', ''phone'', ''creation_date'', ''status''], rows = body\<rparr>)
       (assign_col (\<lambda>c. Inr (phone_digits L c)) ''phone'')"

definition clean_clients_data ::
  "pandas \<Rightarrow> filesystem \<Rightarrow> string \<Rightarrow> string \<Rightarrow> dataframe option \<times> filesystem" where
  "clean_clients_data L fs raw_data_dir clean_data_dir =
     (case bind_err (read_excel fs (raw_data_dir, ''clients.xlsx'') 5 True [1, 2, 3, 4, 5])
             (clients_frame L) of
        Inl e \<Rightarrow> (None, fs)
      | Inr clients_df \<Rightarrow> save_cleaned L fs clean_data_dir ''clients.csv'' clients_df)"

text \<open>Lines 66 to 68.\<close>

definition pets_frame :: "pandas \<Rightarrow> cell list list \<Rightarrow> error + dataframe" where
  "pets_frame L body =
     bind_err (assign_col (to_datetime L) ''creation_date''
                 \<lparr>columns = [''pet_name'', ''code'', ''creation_date'', ''status'', ''type'', ''client_phone''],
                  rows = body\<rparr>)
       (assign_col (\<lambda>c. Inr (phone_digits L c)) ''client_phone'')"

definition clean_pets_data ::
  "pandas \<Rightarrow> filesystem \<Rightarrow> string \<Rightarrow> string \<Rightarrow> dataframe option \<times> filesystem" where
  "clean_pets_data L fs raw_data_dir clean_data_dir =
     (case bind_err (read_excel fs (raw_data_dir, ''pets.xlsx'') 4 False [1, 2, 3, 4, 5, 7])
             (pets_frame L) of
        Inl e \<Rightarrow> (None, fs)
      | Inr pets_df \<Rightarrow> save_cleaned L fs clean_data_dir ''pets.csv'' pets_df)"

text \<open>Lines 98 to 103.\<close>

definition services_frame :: "pandas \<Rightarrow> cell list list \<Rightarrow> error + dataframe" where
  "services_frame L body =
     bind_err (assign_col (to_datetime L) ''creation_date''
                 \<lparr>columns = [''category'', ''service'', ''quantity'', ''cost'', ''sale_price'', ''creation_date''],
                  rows = body\<rparr>)
       (\<lambda>df. bind_err (assign_col (\<lambda>c. Inr (to_numeric L c)) ''quantity'' df)
       (\<lambda>df. bind_err (assign_col (\<lambda>c. Inr (to_numeric L c)) ''cost'' df)
       (\<lambda>df. bind_err (assign_col (\<lambda>c. Inr (to_numeric L c)) ''sale_price'' df)
       (dropna_subset ''sale_price''))))"

definition clean_services_data ::
  "pandas \<Rightarrow> filesystem \<Rightarrow> string \<Rightarrow> string \<Rightarrow> dataframe option \<times> filesystem" where
  "clean_services_data L fs raw_data_dir clean_data_dir =
     (case bind_err (read_excel fs (raw_data_dir, ''services.xlsx'') 5 False [1, 2, 3, 4, 5, 7])
             (services_frame L) of
        Inl e \<Rightarrow> (None, fs)
      | Inr services_df \<Rightarrow> save_cleaned L fs clean_data_dir ''services.csv'' services_df)"

text \<open>
  Lines 133 to 137. The typing of the revenue frame (lines 135 and 136) is a function of
  its own: it runs on what \<open>iloc[:-2]\<close> left.
\<close>

definition revenue_typing :: "pandas \<Rightarrow> dataframe \<Rightarrow> error + dataframe" where
  "revenue_typing L df =
     bind_err (assign_col (\<lambda>c. Inr (phone_digits L c)) ''client_phone'' df)
       (assign_col (to_datetime L) ''creation_date'')"

definition revenue_columns :: "string list" where
  "revenue_columns =
     [''creation_date'', ''category'', ''client'', ''client_phone'', ''pet_name'', ''invoice_code'',
      ''amount'', ''discount'', ''paid'', ''debit'']"

definition revenue_frame :: "pandas \<Rightarrow> cell list list \<Rightarrow> error + dataframe" where
  "revenue_frame L body =
     bind_err (revenue_typing L (iloc_drop_last2 \<lparr>columns = revenue_columns, rows = body\<rparr>))
       (\<lambda>df. Inr (dropna df))"

definition clean_revenue_data ::
  "pandas \<Rightarrow> filesystem \<Rightarrow> string \<Rightarrow> string \<Rightarrow> dataframe option \<times> filesystem" where
  "clean_revenue_data L fs raw_data_dir clean_data_dir =
     (case bind_err (read_excel fs (raw_data_dir, ''revenue.xlsx'') 5 False [1, 2, 3, 4, 5, 6, 7, 8, 10, 11])
             (revenue_frame L) of
        Inl e \<Rightarrow> (None, fs)
      | Inr revenue_df \<Rightarrow> save_cleaned L fs clean_data_dir ''revenue.csv'' revenue_df)"

subsection \<open>main\<close>

text \<open>
  \<open>main\<close> raises when the raw directory of the day does not exist, and otherwise runs
  the four operations one after the other on the same two directories. There is no
  cleaning operation for expenses (nor for inventory): both results are \<open>None\<close>.
\<close>

record loaded =
  clients_df :: "dataframe option"
  pets_df :: "dataframe option"
  services_df :: "dataframe option"
  revenue_df :: "dataframe option"
  inventory_df :: "dataframe option"
  expenses_df :: "dataframe option"

definition main :: "pandas \<Rightarrow> filesystem \<Rightarrow> string \<Rightarrow> string \<Rightarrow> error + loaded \<times> filesystem" where
  "main L fs DATASETS_DIR timestamp =
     (let raw_data_dir = DATASETS_DIR @ ''/raw/'' @ timestamp;
          clean_data_dir = DATASETS_DIR @ ''/clean/'' @ timestamp
      in if \<not> is_dir fs raw_data_dir then Inl FileNotFoundError
         else
           (let (c, fs1) = clean_clients_data L fs raw_data_dir clean_data_dir;
                (p, fs2) = clean_pets_data L fs1 raw_data_dir clean_data_dir;
                (s, fs3) = clean_services_data L fs2 raw_data_dir clean_data_dir;
                (r, fs4) = clean_revenue_data L fs3 raw_data_dir clean_data_dir
            in Inr (\<lparr>clients_df = c, pets_df = p, services_df = s, revenue_df = r,
                      inventory_df = None, expenses_df = None\<rparr>, fs4)))"

section \<open>dashboard.py: the date filter\<close>

text \<open>
  \<open>df.empty\<close> holds when the frame has no row or no column. \<open>df[col].dt\<close> raises
  \<open>AttributeError\<close> unless the column holds datetimes, which is what \<open>load_data\<close>
  makes of \<open>creation_date\<close>: every cell a timestamp or \<open>NaT\<close>. \<open>.dt.date\<close> of such a
  column is a column of dates, and a comparison of \<open>NaT\<close> with a date is false. When no
  cell of the column has a date, \<open>.dt.date\<close> is a datetime column again, all \<open>NaT\<close>,
  and its comparison with \<open>from_date\<close> raises \<open>TypeError\<close>.
\<close>

definition df_empty :: "dataframe \<Rightarrow> bool" where
  "df_empty df = (rows df = [] \<or> columns df = [])"

fun is_datetime :: "cell \<Rightarrow> bool" where
  "is_datetime Missing = True"
| "is_datetime (Stamp t) = True"
| "is_datetime (Txt s) = False"
| "is_datetime (Num q) = False"

fun in_range :: "date \<Rightarrow> date \<Rightarrow> cell \<Rightarrow> bool" where
  "in_range from_date to_date (Stamp t) = (date_le from_date (ts_date t) \<and> date_le (ts_date t) to_date)"
| "in_range from_date to_date c = False"

definition filter_df :: "date \<Rightarrow> date \<Rightarrow> dataframe \<Rightarrow> string \<Rightarrow> error + dataframe" where
  "filter_df from_date to_date df date_col =
     (if df_empty df \<or> date_col \<notin> set (columns df) then Inr df
      else (case col_pos (columns df) date_col of
              None \<Rightarrow> Inl KeyError
            | Some i \<Rightarrow>
                if \<not> list_all (\<lambda>r. is_datetime (r ! i)) (rows df) then Inl AttributeError
                else if list_all (\<lambda>r. r ! i = Missing) (rows df) then Inl TypeError
                else Inr (df\<lparr>rows := filter (\<lambda>r. in_range from_date to_date (r ! i)) (rows df)\<rparr>)))"

section \<open>Sample inputs\<close>

text \<open>
  A digit string, as the data model says of phone fields: not empty, every character a
  decimal digit.
\<close>

definition all_digits :: "string \<Rightarrow> bool" where
  "all_digits s = (s \<noteq> [] \<and> list_all (\<lambda>c. c \<in> set ''0123456789'') s)"

text \<open>
  One instance of the library parameters, enough to run the operations on the sheets
  below: \<open>to_numeric\<close> reads unsigned decimal integers, \<open>to_datetime\<close> reads no text
  and no number, and the CSV writer prints the header and the text cells. No sample
  sheet has a number or a date in a phone column, so how these print under
  \<open>astype(str)\<close> is fixed to one text each.
\<close>

definition digits_value :: "string \<Rightarrow> nat" where
  "digits_value s = fold (\<lambda>c n. 10 * n + (of_char c - 48)) s 0"

definition cell_text :: "cell \<Rightarrow> string" where
  "cell_text c = (case c of Txt s \<Rightarrow> s | Missing \<Rightarrow> [] | Num q \<Rightarrow> [] | Stamp t \<Rightarrow> [])"

definition sample_csv :: "dataframe \<Rightarrow> string" where
  "sample_csv df =
     concat (map (\<lambda>line. concat (map (\<lambda>x. x @ '','') line) @ [CHR 0x0A])
       (columns df # map (map cell_text) (rows df)))"

definition sample_pandas :: pandas where
  "sample_pandas =
     \<lparr>str_of_num = (\<lambda>q. ''0.0''),
      str_of_stamp = (\<lambda>t. ''2025-12-05 00:00:00''),
      numeric_of_str = (\<lambda>s. if all_digits s then Some (of_nat (digits_value s)) else None),
      datetime_of_str = (\<lambda>s. None),
      datetime_of_num = (\<lambda>q. None),
      csv_of = sample_csv\<rparr>"

definition dec5 :: cell where
  "dec5 = Stamp (Timestamp (Date 2025 12 5) 0)"

definition clients_sheet :: "cell list list" where
  "clients_sheet =
     [[Txt ''Clients Report''], [], [], [], [],
      [Missing, Txt ''Name'', Txt ''Code'', Txt ''Phone'', Txt ''Created'', Txt ''Status''],
      [Missing, Txt ''Mona'', Txt ''C-17'', Txt ''201234567.0'', dec5, Txt ''Active''],
      [Missing, Txt ''Omar'', Txt ''C-18'', Txt ''+20 100 1234567'', dec5, Txt ''Active'']]"

definition pets_sheet :: "cell list list" where
  "pets_sheet =
     [[Txt ''Pets Report''], [], [], [],
      [Missing, Txt ''Rex'', Txt ''P-3'', dec5, Txt ''Active'', Txt ''Dog'', Txt ''Mona'', Txt ''201234567.0'']]"

definition services_sheet :: "cell list list" where
  "services_sheet =
     [[Txt ''Services Report''], [], [], [], [],
      [Missing, Txt ''Clinic'', Txt ''Checkup'', Num 1, Num 50, Num 150, Missing, dec5],
      [Missing, Txt ''Clinic'', Txt ''Vaccine'', Txt ''n/a'', Txt ''-'', Txt ''150'', Missing, dec5],
      [Missing, Txt ''Shop'', Txt ''Leash'', Num 2, Num 30, Txt ''free'', Missing, dec5]]"

definition revenue_data :: "cell list list" where
  "revenue_data =
     [[Missing, dec5, Txt ''Clinic'', Txt ''Mona'', Txt ''201234567.0'', Txt ''Rex'', Txt ''INV-1'',
       Num 150, Num 0, Missing, Num 150, Num 0],
      [Missing, dec5, Txt ''Clinic'', Txt ''Omar'', Missing, Txt ''Kit'', Txt ''INV-2'',
       Missing, Num 0, Missing, Num 90, Num 0]]"

definition revenue_total :: "cell list" where
  "revenue_total =
     [Missing, Txt ''Total'', Missing, Missing, Missing, Missing, Missing,
      Num 240, Num 0, Missing, Num 240, Num 0]"

definition revenue_footer :: "cell list" where
  "revenue_footer =
     [Missing, Txt ''Printed by admin'', Missing, Missing, Missing, Missing, Missing,
      Missing, Missing, Missing, Missing, Missing]"

definition revenue_sheet :: "cell list list" where
  "revenue_sheet =
     [[Txt ''Revenue Report''], [], [], [], []] @ revenue_data @ [revenue_total, revenue_footer]"

definition sample_fs :: filesystem where
  "sample_fs =
     \<lparr>files = (\<lambda>p.
        if p = (''data/raw/20251227'', ''clients.xlsx'') then Some (Spreadsheet clients_sheet)
        else if p = (''data/raw/20251227'', ''pets.xlsx'') then Some (Spreadsheet pets_sheet)
        else if p = (''data/raw/20251227'', ''services.xlsx'') then Some (Spreadsheet services_sheet)
        else if p = (''data/raw/20251227'', ''revenue.xlsx'') then Some (Spreadsheet revenue_sheet)
        else None),
      is_dir = (\<lambda>d. d = ''data/raw/20251227''),
      writable = (\<lambda>d. True)\<rparr>"

text \<open>The same store with no directory that can be written to.\<close>

definition readonly_fs :: filesystem where
  "readonly_fs = sample_fs\<lparr>writable := (\<lambda>d. False)\<rparr>"

text \<open>The sample store without the pets export.\<close>

definition no_pets_fs :: filesystem where
  "no_pets_fs =
     sample_fs\<lparr>files := (files sample_fs)((''data/raw/20251227'', ''pets.xlsx'') := None)\<rparr>"

text \<open>
  A JSON response, a response the vendor labels as JSON whose body is an HTML error
  page, and one labelled as JSON whose body is a ZIP archive.
\<close>

definition json_list :: response where
  "json_list =
     \<lparr>status_code = 200,
      resp_headers = [(''Content-Type'', ''application/json'')],
      content = ''[true]'',
      json_body = Some (JList [JBool True])\<rparr>"

definition html_as_json :: response where
  "html_as_json =
     \<lparr>status_code = 200,
      resp_headers = [(''Content-Type'', ''application/json; charset=utf-8'')],
      content = ''<html>Bad Gateway</html>'',
      json_body = None\<rparr>"

definition zip_as_json :: response where
  "zip_as_json =
     \<lparr>status_code = 200,
      resp_headers = [(''Content-Type'', ''application/json'')],
      content = ''PK'' @ [CHR 0x03, CHR 0x04] @ ''sheet'',
      json_body = None\<rparr>"

definition last_days :: dict where
  "last_days = [(''CreatedAtFrom'', ''2025-12-01''), (''CreatedAtTo'', ''2025-12-27'')]"

text \<open>A clean table of four days of December 2025 and one row without a date.\<close>

definition december :: dataframe where
  "december =
     \<lparr>columns = [''name'', ''creation_date''],
      rows = [[Txt ''a'', Stamp (Timestamp (Date 2025 12 9) 86399000000000)],
              [Txt ''b'', Stamp (Timestamp (Date 2025 12 10) 0)],
              [Txt ''c'', Stamp (Timestamp (Date 2025 12 20) 86399000000000)],
              [Txt ''d'', Stamp (Timestamp (Date 2025 12 21) 0)],
              [Txt ''e'', Missing]]\<rparr>"

text \<open>A clean table no row of which has a date.\<close>

definition undated :: dataframe where
  "undated =
     \<lparr>columns = [''name'', ''creation_date''],
      rows = [[Txt ''a'', Missing], [Txt ''b'', Missing]]\<rparr>"

section \<open>Properties of the vendor API client\<close>

lemma map_of_dict_update:
  "distinct (map fst other) \<Longrightarrow> map_of (dict_update d other) = map_of d ++ map_of other"
proof (induction other arbitrary: d)
  case Nil
  then show ?case by (simp add: dict_update_def)
next
  case (Cons kv other)
  have "map_of (dict_update d (kv # other)) = map_of (dict_update (AList.update (fst kv) (snd kv) d) other)"
    by (simp add: dict_update_def)
  also have "\<dots> = map_of (AList.update (fst kv) (snd kv) d) ++ map_of other"
    using Cons by simp
  also have "\<dots> = map_of d ++ map_of (kv # other)"
  proof (rule ext)
    fix k
    show "(map_of (AList.update (fst kv) (snd kv) d) ++ map_of other) k = (map_of d ++ map_of (kv # other)) k"
      using Cons.prems
      by (cases kv) (auto simp: map_add_def update_conv' map_of_eq_None_iff image_iff split: option.splits)
  qed
  finally show ?case .
qed

lemma ENDPOINTS_refs:
  "map_of ENDPOINTS k = Some c \<Longrightarrow> config_allocated w \<Longrightarrow> params_ref c = Some a \<Longrightarrow> a < next_addr w"
  by (auto simp: ENDPOINTS_def config_allocated_def split: if_splits)

lemma prepare_params_heap:
  "prepare_params w c dyn = (p, w') \<Longrightarrow>
     heap w' p = dict_update (case params_ref c of None \<Rightarrow> [] | Some a \<Rightarrow> heap w a) dyn
   \<and> (\<forall>a < next_addr w. heap w' a = heap w a) \<and> sent w' = sent w"
  by (auto simp: prepare_params_def alloc_def Let_def split: option.splits prod.splits)

lemma fetch_data_world:
  assumes "map_of ENDPOINTS endpoint_key = Some config"
  shows "\<exists>p w1. prepare_params w config dynamic_params = (p, w1)
     \<and> snd (fetch_data net w token endpoint_key dynamic_params)
         = w1\<lparr>sent := sent w1 @ [\<lparr>req_url = endpoint config, req_headers = auth_headers token,
                                    req_params = heap w1 p\<rparr>]\<rparr>"
proof -
  obtain p w1 where pp: "prepare_params w config dynamic_params = (p, w1)"
    by (cases "prepare_params w config dynamic_params")
  then show ?thesis
    using assms by (auto simp: fetch_data_def Let_def split: option.splits)
qed

text \<open>
  Claim C9. For a configured endpoint key, the query parameters of the request that
  \<open>fetch_data\<close> issues are the stored defaults of the endpoint merged with the caller's
  parameters, the caller's value winning on every common key, and the stored defaults
  of every endpoint are the same after the call as before.
\<close>

theorem fetch_data_params_merge:
  assumes "map_of ENDPOINTS endpoint_key = Some config"
    and "config_allocated w"
    and "distinct (map fst dynamic_params)"
  shows "\<exists>req. sent (snd (fetch_data net w token endpoint_key dynamic_params)) = sent w @ [req]
           \<and> req_url req = endpoint config
           \<and> map_of (req_params req) = map_of (stored_defaults w config) ++ map_of dynamic_params
           \<and> (\<forall>k v. map_of dynamic_params k = Some v \<longrightarrow> map_of (req_params req) k = Some v)
           \<and> (\<forall>k. map_of dynamic_params k = None
                  \<longrightarrow> map_of (req_params req) k = map_of (stored_defaults w config) k)
           \<and> (\<forall>k c. map_of ENDPOINTS k = Some c
                  \<longrightarrow> stored_defaults (snd (fetch_data net w token endpoint_key dynamic_params)) c
                        = stored_defaults w c)"
proof -
  let ?w' = "snd (fetch_data net w token endpoint_key dynamic_params)"
  obtain p w1 where pp: "prepare_params w config dynamic_params = (p, w1)"
    and w': "?w' = w1\<lparr>sent := sent w1 @ [\<lparr>req_url = endpoint config, req_headers = auth_headers token,
                                    req_params = heap w1 p\<rparr>]\<rparr>"
    using fetch_data_world [OF assms(1)] by blast
  note h = prepare_params_heap [OF pp]
  define req where "req = \<lparr>req_url = endpoint config, req_headers = auth_headers token, req_params = heap w1 p\<rparr>"
  have m: "map_of (req_params req) = map_of (stored_defaults w config) ++ map_of dynamic_params"
    using h assms(3) by (simp add: req_def map_of_dict_update stored_defaults_def)
  have keep: "\<And>k c. map_of ENDPOINTS k = Some c \<Longrightarrow> stored_defaults ?w' c = stored_defaults w c"
  proof -
    fix k c assume kc: "map_of ENDPOINTS k = Some c"
    show "stored_defaults ?w' c = stored_defaults w c"
    proof (cases "params_ref c")
      case None
      then show ?thesis by (simp add: stored_defaults_def)
    next
      case (Some a)
      then have "a < next_addr w" using ENDPOINTS_refs [OF kc assms(2)] by simp
      then show ?thesis using Some h w' by (simp add: stored_defaults_def)
    qed
  qed
  have s: "sent ?w' = sent w @ [req]"
    using h w' by (simp add: req_def)
  show ?thesis
    using s m keep by (intro exI [of _ req]) (auto simp: req_def map_add_def)
qed

theorem fetch_data_params_merge_witness:
  "map_of ENDPOINTS ''clients'' = Some \<lparr>endpoint = BASE_URL @ ''/exportreports/clientsreport'', params_ref = Some 0\<rparr>
   \<and> config_allocated init_world
   \<and> distinct (map fst last_days)
   \<and> (\<exists>req. sent (snd (fetch_data (\<lambda>q. None) init_world ''t0k'' ''clients'' last_days)) = [req]
         \<and> map_of (req_params req) ''CreatedAtFrom'' = Some ''2025-12-01''
         \<and> map_of (req_params req) ''CreatedAtTo'' = Some ''2025-12-27''
         \<and> map_of (req_params req) ''IsActive'' = Some ''true'')
   \<and> heap (snd (fetch_data (\<lambda>q. None) init_world ''t0k'' ''clients'' last_days)) 0
       = [(''CreatedAtFrom'', ''2025-12-27''), (''CreatedAtTo'', ''2025-12-27''), (''IsActive'', ''true'')]"
proof -
  let ?c = "\<lparr>endpoint = BASE_URL @ ''/exportreports/clientsreport'', params_ref = Some 0\<rparr>"
  let ?w' = "snd (fetch_data (\<lambda>q. None) init_world ''t0k'' ''clients'' last_days)"
  have a: "map_of ENDPOINTS ''clients'' = Some ?c" by (simp add: ENDPOINTS_def)
  have b: "config_allocated init_world" by (simp add: config_allocated_def ENDPOINTS_def init_world_def)
  have c: "distinct (map fst last_days)" by (simp add: last_days_def)
  have d: "stored_defaults init_world ?c
      = [(''CreatedAtFrom'', ''2025-12-27''), (''CreatedAtTo'', ''2025-12-27''), (''IsActive'', ''true'')]"
    by (simp add: stored_defaults_def init_world_def)
  from fetch_data_params_merge [OF a b c, of "\<lambda>q. None" "''t0k''"]
  obtain req where r: "sent ?w' = sent init_world @ [req]"
    "map_of (req_params req) = map_of (stored_defaults init_world ?c) ++ map_of last_days"
    "stored_defaults ?w' ?c = stored_defaults init_world ?c"
    using a by blast
  have "sent ?w' = [req]" using r(1) by (simp add: init_world_def)
  moreover have "map_of (req_params req) ''CreatedAtFrom'' = Some ''2025-12-01''"
    "map_of (req_params req) ''CreatedAtTo'' = Some ''2025-12-27''"
    "map_of (req_params req) ''IsActive'' = Some ''true''"
    unfolding r(2) d by (simp_all add: last_days_def map_add_def)
  moreover have "heap ?w' 0 = [(''CreatedAtFrom'', ''2025-12-27''), (''CreatedAtTo'', ''2025-12-27''), (''IsActive'', ''true'')]"
    using r(3) d by (simp add: stored_defaults_def)
  ultimately show ?thesis using a b c by blast
qed

text \<open>
  Claim C10. For an endpoint key that is not configured, \<open>fetch_data\<close> returns \<open>None\<close>
  and leaves the world as it was, so no request is issued, whatever the token, the
  parameters and the network.
\<close>

theorem fetch_data_unknown_endpoint:
  "endpoint_key \<notin> fst ` set ENDPOINTS \<Longrightarrow>
     fetch_data net w token endpoint_key dynamic_params = (None, w)"
  by (simp add: fetch_data_def map_of_eq_None_iff [THEN iffD2])

theorem fetch_data_unknown_endpoint_witness:
  "''inventory'' \<notin> fst ` set ENDPOINTS
   \<and> fetch_data (\<lambda>q. Some zip_as_json) init_world ''t0k'' ''inventory'' last_days = (None, init_world)
   \<and> sent (snd (fetch_data (\<lambda>q. Some zip_as_json) init_world ''t0k'' ''inventory'' last_days)) = []"
proof -
  have a: "''inventory'' \<notin> fst ` set ENDPOINTS" by (simp add: ENDPOINTS_def)
  from fetch_data_unknown_endpoint [OF a, of "\<lambda>q. Some zip_as_json" init_world "''t0k''" last_days]
  show ?thesis using a by (simp add: init_world_def)
qed

section \<open>Properties of the normalizer\<close>

lemma map_err_Inr_iff:
  "map_err f xs = Inr ys \<longleftrightarrow> (\<forall>x \<in> set xs. \<not> isl (f x)) \<and> ys = map (\<lambda>x. projr (f x)) xs"
proof (induction xs arbitrary: ys)
  case Nil
  then show ?case by auto
next
  case (Cons x xs)
  then show ?case
    by (cases "f x"; cases "map_err f xs") auto
qed

lemma assign_col_Inr_iff:
  "assign_col f c df = Inr df' \<longleftrightarrow>
     (\<exists>i. col_pos (columns df) c = Some i \<and> (\<forall>r \<in> set (rows df). \<not> isl (f (r ! i)))
        \<and> df' = df\<lparr>rows := map (\<lambda>r. r[i := projr (f (r ! i))]) (rows df)\<rparr>)"
proof (cases "col_pos (columns df) c")
  case None
  then show ?thesis by (simp add: assign_col_def)
next
  case (Some i)
  let ?g = "\<lambda>r. case f (r ! i) of Inl e \<Rightarrow> Inl e | Inr v \<Rightarrow> Inr (r[i := v])"
  have a: "\<And>r. isl (?g r) = isl (f (r ! i))" by (simp split: sum.splits)
  have b: "\<And>r. \<not> isl (f (r ! i)) \<Longrightarrow> projr (?g r) = r[i := projr (f (r ! i))]"
  proof -
    fix r assume "\<not> isl (f (r ! i))"
    then show "projr (?g r) = r[i := projr (f (r ! i))]" by (cases "f (r ! i)") auto
  qed
  show ?thesis
  proof (cases "map_err ?g (rows df)")
    case (Inl e)
    then have "\<not> (\<forall>r \<in> set (rows df). \<not> isl (?g r))"
      using map_err_Inr_iff [of ?g "rows df"] by auto
    then show ?thesis using Some Inl a by (auto simp: assign_col_def)
  next
    case (Inr rs)
    then have ok: "\<forall>r \<in> set (rows df). \<not> isl (f (r ! i))"
      and rs: "rs = map (\<lambda>r. projr (?g r)) (rows df)"
      using map_err_Inr_iff [of ?g "rows df" rs] a by auto
    have "rs = map (\<lambda>r. r[i := projr (f (r ! i))]) (rows df)"
      unfolding rs using ok b by (intro map_cong) auto
    moreover have "assign_col f c df = Inr (df\<lparr>rows := rs\<rparr>)"
      using Some Inr by (simp add: assign_col_def)
    ultimately show ?thesis using Some ok by auto
  qed
qed

lemma bind_err_Inr_iff: "bind_err m f = Inr y \<longleftrightarrow> (\<exists>x. m = Inr x \<and> f x = Inr y)"
  by (cases m) (auto simp: bind_err_def)

lemma read_excel_no_header:
  "read_excel fs path k False usecols = Inr body \<Longrightarrow> files fs path = Some (Spreadsheet sheet) \<Longrightarrow>
     body = map (pick_cols usecols) (drop k sheet)"
  by (auto simp: read_excel_def split: list.splits if_splits)

lemma revenue_typing_rows:
  assumes "revenue_typing L \<lparr>columns = revenue_columns, rows = rs\<rparr> = Inr typed"
  shows "rows typed = map (\<lambda>r. r[3 := phone_digits L (r ! 3), 0 := projr (to_datetime L (r[3 := phone_digits L (r ! 3)] ! 0))]) rs"
  using assms
  by (auto simp: revenue_typing_def revenue_columns_def bind_err_Inr_iff assign_col_Inr_iff o_def eval_nat_numeral)

text \<open>
  Claim C1. The revenue operation cuts the last two rows of the sheet before any typing
  and keeps exactly the typed rows without an empty cell: on a sheet of \<open>N\<close> data rows
  followed by two summary rows, the typing runs on the \<open>N\<close> data rows alone, every typed
  row with an empty cell is left out, and the clean table has at most \<open>N\<close> rows.
\<close>

theorem clean_revenue_data_rows:
  assumes "files fs (raw_data_dir, ''revenue.xlsx'') = Some (Spreadsheet sheet)"
    and "drop 5 sheet = data @ [summary1, summary2]"
    and "clean_revenue_data L fs raw_data_dir clean_data_dir = (Some df, fs')"
  shows "\<exists>typed.
           revenue_typing L \<lparr>columns = revenue_columns,
              rows = map (pick_cols [1, 2, 3, 4, 5, 6, 7, 8, 10, 11]) data\<rparr> = Inr typed
         \<and> rows df = filter (\<lambda>r. Missing \<notin> set r) (rows typed)
         \<and> (\<forall>r \<in> set (rows typed). Missing \<in> set r \<longrightarrow> r \<notin> set (rows df))
         \<and> length (rows df) \<le> length data"
proof -
  let ?cols = "[1, 2, 3, 4, 5, 6, 7, 8, 10, 11] :: nat list"
  obtain body where body: "read_excel fs (raw_data_dir, ''revenue.xlsx'') 5 False ?cols = Inr body"
    and frame: "revenue_frame L body = Inr df"
    using assms(3)
    by (auto simp: clean_revenue_data_def bind_err_def save_cleaned_def split: sum.splits)
  have "body = map (pick_cols ?cols) (data @ [summary1, summary2])"
    using read_excel_no_header [OF body assms(1)] assms(2) by simp
  then have cut: "iloc_drop_last2 \<lparr>columns = revenue_columns, rows = body\<rparr>
      = \<lparr>columns = revenue_columns, rows = map (pick_cols ?cols) data\<rparr>"
    by (simp add: iloc_drop_last2_def)
  from frame obtain typed where
    typed: "revenue_typing L \<lparr>columns = revenue_columns, rows = map (pick_cols ?cols) data\<rparr> = Inr typed"
    and df: "df = dropna typed"
    unfolding revenue_frame_def cut by (auto simp: bind_err_Inr_iff)
  have len: "length (rows typed) = length data"
    using revenue_typing_rows [OF typed] by simp
  have "length (rows df) \<le> length (rows typed)"
    unfolding df by (simp add: dropna_def)
  then show ?thesis
    using typed df len by (intro exI [of _ typed]) (auto simp: dropna_def)
qed


theorem clean_revenue_data_rows_witness:
  "files sample_fs (''data/raw/20251227'', ''revenue.xlsx'') = Some (Spreadsheet revenue_sheet)
   \<and> drop 5 revenue_sheet = revenue_data @ [revenue_total, revenue_footer]
   \<and> fst (clean_revenue_data sample_pandas sample_fs ''data/raw/20251227'' ''data/clean/20251227'')
       = Some \<lparr>columns = revenue_columns,
               rows = [[dec5, Txt ''Clinic'', Txt ''Mona'', Txt ''201234567'', Txt ''Rex'', Txt ''INV-1'',
                        Num 150, Num 0, Num 150, Num 0]]\<rparr>
   \<and> length [[dec5, Txt ''Clinic'', Txt ''Mona'', Txt ''201234567'', Txt ''Rex'', Txt ''INV-1'',
                        Num 150, Num 0, Num 150, Num (0::rat)]] \<le> length revenue_data"
proof -
  let ?run = "clean_revenue_data sample_pandas sample_fs ''data/raw/20251227'' ''data/clean/20251227''"
  let ?df = "\<lparr>columns = revenue_columns,
               rows = [[dec5, Txt ''Clinic'', Txt ''Mona'', Txt ''201234567'', Txt ''Rex'', Txt ''INV-1'',
                        Num 150, Num 0, Num 150, Num 0]]\<rparr>"
  have a: "files sample_fs (''data/raw/20251227'', ''revenue.xlsx'') = Some (Spreadsheet revenue_sheet)"
    by (simp add: sample_fs_def)
  have b: "drop 5 revenue_sheet = revenue_data @ [revenue_total, revenue_footer]"
    by (simp add: revenue_sheet_def)
  have c: "fst ?run = Some ?df"
    by code_simp
  then have d: "?run = (Some ?df, snd ?run)"
    by (metis prod.collapse)
  from clean_revenue_data_rows [OF a b d] have "length (rows ?df) \<le> length revenue_data"
    by blast
  then show ?thesis using a b c by simp
qed

lemma services_frame_rows:
  assumes "services_frame L body = Inr df"
  shows "(\<forall>r \<in> set body. \<not> isl (to_datetime L (r ! 5)))
     \<and> rows df = filter (\<lambda>r. r ! 4 \<noteq> Missing)
         (map (\<lambda>r. r[5 := projr (to_datetime L (r ! 5)), 2 := to_numeric L (r ! 2),
                      3 := to_numeric L (r ! 3), 4 := to_numeric L (r ! 4)]) body)"
  using assms
  by (auto simp: services_frame_def bind_err_Inr_iff assign_col_Inr_iff dropna_subset_def o_def eval_nat_numeral)

lemma read_excel_row_length:
  "read_excel fs path k h usecols = Inr body \<Longrightarrow> r \<in> set body \<Longrightarrow> length r = length usecols"
  by (auto simp: read_excel_def pick_cols_def split: option.splits file_content.splits list.splits if_splits)

lemma six_cells:
  assumes "length r = 6"
  shows "r[5 := a, 2 := b, 3 := c, 4 := d] = [r ! 0, r ! 1, b, c, d, a]"
proof -
  obtain x0 x1 x2 x3 x4 x5 where "r = [x0, x1, x2, x3, x4, x5]"
    using assms by (auto simp: length_Suc_conv eval_nat_numeral)
  then show ?thesis by simp
qed

text \<open>
  Claim C2. When the services operation returns a table, the table holds one row for
  every row read whose sale price \<open>to_numeric\<close> can read, in the order of the sheet, and
  no other row: a row whose sale price fails the coercion is left out. A row kept has
  its quantity, cost and sale price coerced, so a quantity or a cost that fails the
  coercion is an empty cell of a row that stays.
\<close>

theorem clean_services_data_rows:
  assumes "clean_services_data L fs raw_data_dir clean_data_dir = (Some df, fs')"
  shows "\<exists>body. read_excel fs (raw_data_dir, ''services.xlsx'') 5 False [1, 2, 3, 4, 5, 7] = Inr body
           \<and> (\<forall>r \<in> set body. \<not> isl (to_datetime L (r ! 5)))
           \<and> rows df =
               map (\<lambda>r. [r ! 0, r ! 1, to_numeric L (r ! 2), to_numeric L (r ! 3), to_numeric L (r ! 4),
                         projr (to_datetime L (r ! 5))])
                 (filter (\<lambda>r. to_numeric L (r ! 4) \<noteq> Missing) body)"
proof -
  obtain body where body: "read_excel fs (raw_data_dir, ''services.xlsx'') 5 False [1, 2, 3, 4, 5, 7] = Inr body"
    and frame: "services_frame L body = Inr df"
    using assms
    by (auto simp: clean_services_data_def bind_err_def save_cleaned_def split: sum.splits)
  have len: "\<And>r. r \<in> set body \<Longrightarrow> length r = 6"
    using read_excel_row_length [OF body] by simp
  let ?f = "\<lambda>r. r[5 := projr (to_datetime L (r ! 5)), 2 := to_numeric L (r ! 2),
                      3 := to_numeric L (r ! 3), 4 := to_numeric L (r ! 4)]"
  let ?g = "\<lambda>r. [r ! 0, r ! 1, to_numeric L (r ! 2), to_numeric L (r ! 3), to_numeric L (r ! 4),
                         projr (to_datetime L (r ! 5))]"
  have fg: "map ?f body = map ?g body"
    using len by (intro map_cong) (auto simp: six_cells)
  have "rows df = filter (\<lambda>r. r ! 4 \<noteq> Missing) (map ?g body)"
    using services_frame_rows [OF frame] fg by simp
  also have "\<dots> = map ?g (filter (\<lambda>r. to_numeric L (r ! 4) \<noteq> Missing) body)"
    by (simp add: filter_map o_def)
  finally show ?thesis
    using body services_frame_rows [OF frame] by blast
qed

theorem clean_services_data_rows_witness:
  "fst (clean_services_data sample_pandas sample_fs ''data/raw/20251227'' ''data/clean/20251227'')
     = Some \<lparr>columns = [''category'', ''service'', ''quantity'', ''cost'', ''sale_price'', ''creation_date''],
             rows = [[Txt ''Clinic'', Txt ''Checkup'', Num 1, Num 50, Num 150, dec5],
                     [Txt ''Clinic'', Txt ''Vaccine'', Missing, Missing, Num 150, dec5]]\<rparr>
   \<and> read_excel sample_fs (''data/raw/20251227'', ''services.xlsx'') 5 False [1, 2, 3, 4, 5, 7]
       = Inr [[Txt ''Clinic'', Txt ''Checkup'', Num 1, Num 50, Num 150, dec5],
              [Txt ''Clinic'', Txt ''Vaccine'', Txt ''n/a'', Txt ''-'', Txt ''150'', dec5],
              [Txt ''Shop'', Txt ''Leash'', Num 2, Num 30, Txt ''free'', dec5]]
   \<and> to_numeric sample_pandas (Txt ''free'') = Missing
   \<and> to_numeric sample_pandas (Txt ''150'') = Num 150"
proof -
  let ?run = "clean_services_data sample_pandas sample_fs ''data/raw/20251227'' ''data/clean/20251227''"
  let ?df = "\<lparr>columns = [''category'', ''service'', ''quantity'', ''cost'', ''sale_price'', ''creation_date''],
             rows = [[Txt ''Clinic'', Txt ''Checkup'', Num 1, Num 50, Num 150, dec5],
                     [Txt ''Clinic'', Txt ''Vaccine'', Missing, Missing, Num 150, dec5]]\<rparr>"
  have a: "fst ?run = Some ?df" by code_simp
  then have b: "?run = (Some ?df, snd ?run)" by (metis prod.collapse)
  have c: "read_excel sample_fs (''data/raw/20251227'', ''services.xlsx'') 5 False [1, 2, 3, 4, 5, 7]
       = Inr [[Txt ''Clinic'', Txt ''Checkup'', Num 1, Num 50, Num 150, dec5],
              [Txt ''Clinic'', Txt ''Vaccine'', Txt ''n/a'', Txt ''-'', Txt ''150'', dec5],
              [Txt ''Shop'', Txt ''Leash'', Num 2, Num 30, Txt ''free'', dec5]]"
    by code_simp
  have d: "to_numeric sample_pandas (Txt ''free'') = Missing" by code_simp
  have e: "to_numeric sample_pandas (Txt ''150'') = Num 150" by code_simp
  from clean_services_data_rows [OF b] obtain body where
    "read_excel sample_fs (''data/raw/20251227'', ''services.xlsx'') 5 False [1, 2, 3, 4, 5, 7] = Inr body"
    "rows ?df = map (\<lambda>r. [r ! 0, r ! 1, to_numeric sample_pandas (r ! 2), to_numeric sample_pandas (r ! 3),
                           to_numeric sample_pandas (r ! 4), projr (to_datetime sample_pandas (r ! 5))])
                 (filter (\<lambda>r. to_numeric sample_pandas (r ! 4) \<noteq> Missing) body)"
    by blast
  then show ?thesis using a c d e by simp
qed

subsection \<open>The store\<close>

lemma save_cleaned_eq:
  "save_cleaned L fs d name df =
     (if writable fs d
      then (Some df, fs\<lparr>files := (files fs)((d, name) := Some (Bytes (csv_of L df))),
                        is_dir := (is_dir fs)(d := True)\<rparr>)
      else (None, fs))"
  by (simp add: save_cleaned_def makedirs_def to_csv_def)

lemma read_excel_cong:
  "files fs' path = files fs path \<Longrightarrow> read_excel fs' path k h u = read_excel fs path k h u"
  by (simp add: read_excel_def)

text \<open>The shape shared by the four operations.\<close>

lemma op_absent:
  "files fs (raw, xlsx) = None \<Longrightarrow>
     (case bind_err (read_excel fs (raw, xlsx) k h u) F of
        Inl e \<Rightarrow> (None, fs) | Inr df \<Rightarrow> save_cleaned L fs clean csv df) = (None, fs)"
  by (simp add: read_excel_def bind_err_def)

lemma op_cong:
  assumes "files fs' (raw, xlsx) = files fs (raw, xlsx)" and "writable fs' = writable fs"
  shows "fst (case bind_err (read_excel fs' (raw, xlsx) k h u) F of
            Inl e \<Rightarrow> (None, fs') | Inr df \<Rightarrow> save_cleaned L fs' clean csv df)
       = fst (case bind_err (read_excel fs (raw, xlsx) k h u) F of
            Inl e \<Rightarrow> (None, fs) | Inr df \<Rightarrow> save_cleaned L fs clean csv df)"
  using assms
  by (simp add: read_excel_cong [OF assms(1)] save_cleaned_eq split: sum.splits)

lemma op_store:
  "writable (snd (case bind_err (read_excel fs (raw, xlsx) k h u) F of
            Inl e \<Rightarrow> (None, fs) | Inr df \<Rightarrow> save_cleaned L fs clean csv df)) = writable fs
   \<and> (\<forall>d n. n \<noteq> csv \<longrightarrow>
        files (snd (case bind_err (read_excel fs (raw, xlsx) k h u) F of
            Inl e \<Rightarrow> (None, fs) | Inr df \<Rightarrow> save_cleaned L fs clean csv df)) (d, n) = files fs (d, n))"
  by (simp add: save_cleaned_eq split: sum.splits)

lemma op_twice:
  assumes "xlsx \<noteq> csv"
  shows "(case bind_err (read_excel
              (snd (case bind_err (read_excel fs (raw, xlsx) k h u) F of
                      Inl e \<Rightarrow> (None, fs) | Inr df \<Rightarrow> save_cleaned L fs clean csv df))
              (raw, xlsx) k h u) F of
            Inl e \<Rightarrow> (None, snd (case bind_err (read_excel fs (raw, xlsx) k h u) F of
                      Inl e \<Rightarrow> (None, fs) | Inr df \<Rightarrow> save_cleaned L fs clean csv df))
          | Inr df \<Rightarrow> save_cleaned L
              (snd (case bind_err (read_excel fs (raw, xlsx) k h u) F of
                      Inl e \<Rightarrow> (None, fs) | Inr df \<Rightarrow> save_cleaned L fs clean csv df))
              clean csv df)
       = (case bind_err (read_excel fs (raw, xlsx) k h u) F of
            Inl e \<Rightarrow> (None, fs) | Inr df \<Rightarrow> save_cleaned L fs clean csv df)"
proof (cases "bind_err (read_excel fs (raw, xlsx) k h u) F")
  case (Inl e)
  then show ?thesis by simp
next
  case (Inr df)
  show ?thesis
  proof (cases "writable fs clean")
    case False
    then show ?thesis using Inr by (simp add: save_cleaned_eq)
  next
    case True
    let ?fs1 = "fs\<lparr>files := (files fs)((clean, csv) := Some (Bytes (csv_of L df))),
                        is_dir := (is_dir fs)(clean := True)\<rparr>"
    have r: "read_excel ?fs1 (raw, xlsx) k h u = read_excel fs (raw, xlsx) k h u"
      using assms by (intro read_excel_cong) simp
    show ?thesis
      using Inr True r by (simp add: save_cleaned_eq)
  qed
qed

text \<open>
  Claim C7. Running a cleaning operation a second time, on the store the first run left
  and with the same two directories, returns the same table and leaves the same store:
  the clean file holds the same bytes after the second run as after the first.
\<close>

theorem cleaning_twice_same_output:
  "clean_clients_data L (snd (clean_clients_data L fs raw_data_dir clean_data_dir)) raw_data_dir clean_data_dir
     = clean_clients_data L fs raw_data_dir clean_data_dir
   \<and> clean_pets_data L (snd (clean_pets_data L fs raw_data_dir clean_data_dir)) raw_data_dir clean_data_dir
     = clean_pets_data L fs raw_data_dir clean_data_dir
   \<and> clean_services_data L (snd (clean_services_data L fs raw_data_dir clean_data_dir)) raw_data_dir clean_data_dir
     = clean_services_data L fs raw_data_dir clean_data_dir
   \<and> clean_revenue_data L (snd (clean_revenue_data L fs raw_data_dir clean_data_dir)) raw_data_dir clean_data_dir
     = clean_revenue_data L fs raw_data_dir clean_data_dir"
proof -
  have c: "clean_clients_data L (snd (clean_clients_data L fs raw_data_dir clean_data_dir)) raw_data_dir clean_data_dir
     = clean_clients_data L fs raw_data_dir clean_data_dir"
    unfolding clean_clients_data_def by (rule op_twice) simp
  have p: "clean_pets_data L (snd (clean_pets_data L fs raw_data_dir clean_data_dir)) raw_data_dir clean_data_dir
     = clean_pets_data L fs raw_data_dir clean_data_dir"
    unfolding clean_pets_data_def by (rule op_twice) simp
  have s: "clean_services_data L (snd (clean_services_data L fs raw_data_dir clean_data_dir)) raw_data_dir clean_data_dir
     = clean_services_data L fs raw_data_dir clean_data_dir"
    unfolding clean_services_data_def by (rule op_twice) simp
  have r: "clean_revenue_data L (snd (clean_revenue_data L fs raw_data_dir clean_data_dir)) raw_data_dir clean_data_dir
     = clean_revenue_data L fs raw_data_dir clean_data_dir"
    unfolding clean_revenue_data_def by (rule op_twice) simp
  show ?thesis using c p s r by simp
qed

theorem cleaning_twice_same_output_witness:
  "fst (clean_revenue_data sample_pandas
          (snd (clean_revenue_data sample_pandas sample_fs ''data/raw/20251227'' ''data/clean/20251227''))
          ''data/raw/20251227'' ''data/clean/20251227'')
     = Some \<lparr>columns = revenue_columns,
             rows = [[dec5, Txt ''Clinic'', Txt ''Mona'', Txt ''201234567'', Txt ''Rex'', Txt ''INV-1'',
                      Num 150, Num 0, Num 150, Num 0]]\<rparr>
   \<and> files (snd (clean_revenue_data sample_pandas
          (snd (clean_revenue_data sample_pandas sample_fs ''data/raw/20251227'' ''data/clean/20251227''))
          ''data/raw/20251227'' ''data/clean/20251227'')) (''data/clean/20251227'', ''revenue.csv'')
     = files (snd (clean_revenue_data sample_pandas sample_fs ''data/raw/20251227'' ''data/clean/20251227''))
         (''data/clean/20251227'', ''revenue.csv'')"
proof -
  have a: "fst (clean_revenue_data sample_pandas sample_fs ''data/raw/20251227'' ''data/clean/20251227'')
     = Some \<lparr>columns = revenue_columns,
             rows = [[dec5, Txt ''Clinic'', Txt ''Mona'', Txt ''201234567'', Txt ''Rex'', Txt ''INV-1'',
                      Num 150, Num 0, Num 150, Num 0]]\<rparr>"
    by code_simp
  from cleaning_twice_same_output [of sample_pandas sample_fs "''data/raw/20251227''" "''data/clean/20251227''"]
  have "clean_revenue_data sample_pandas
          (snd (clean_revenue_data sample_pandas sample_fs ''data/raw/20251227'' ''data/clean/20251227''))
          ''data/raw/20251227'' ''data/clean/20251227''
        = clean_revenue_data sample_pandas sample_fs ''data/raw/20251227'' ''data/clean/20251227''"
    by blast
  then show ?thesis using a by simp
qed

lemma op_saved:
  assumes "bind_err (read_excel fs (raw, xlsx) k h u) F = Inr df"
  shows "(writable fs clean \<longrightarrow>
            fst (case bind_err (read_excel fs (raw, xlsx) k h u) F of
                   Inl e \<Rightarrow> (None, fs) | Inr df \<Rightarrow> save_cleaned L fs clean csv df) = Some df
          \<and> files (snd (case bind_err (read_excel fs (raw, xlsx) k h u) F of
                   Inl e \<Rightarrow> (None, fs) | Inr df \<Rightarrow> save_cleaned L fs clean csv df)) (clean, csv)
              = Some (Bytes (csv_of L df)))
       \<and> (\<not> writable fs clean \<longrightarrow>
            (case bind_err (read_excel fs (raw, xlsx) k h u) F of
                   Inl e \<Rightarrow> (None, fs) | Inr df \<Rightarrow> save_cleaned L fs clean csv df) = (None, fs))"
  using assms by (simp add: save_cleaned_eq)

text \<open>
  Claim C8, as the code has it. When the raw file parses, each cleaning operation writes
  the clean table to its file in the clean directory and then returns the table,
  provided the directory can be written to. When it cannot, the failure is caught by the
  \<open>except\<close> of the operation: nothing is raised, the store is unchanged, and the
  operation returns \<open>None\<close>, not the table.
\<close>

theorem clean_persists_or_returns_none:
  "(bind_err (read_excel fs (raw_data_dir, ''clients.xlsx'') 5 True [1, 2, 3, 4, 5]) (clients_frame L) = Inr df
      \<longrightarrow> (writable fs clean_data_dir \<longrightarrow>
              fst (clean_clients_data L fs raw_data_dir clean_data_dir) = Some df
            \<and> files (snd (clean_clients_data L fs raw_data_dir clean_data_dir)) (clean_data_dir, ''clients.csv'')
                = Some (Bytes (csv_of L df)))
        \<and> (\<not> writable fs clean_data_dir \<longrightarrow>
              clean_clients_data L fs raw_data_dir clean_data_dir = (None, fs)))
   \<and> (bind_err (read_excel fs (raw_data_dir, ''pets.xlsx'') 4 False [1, 2, 3, 4, 5, 7]) (pets_frame L) = Inr df
      \<longrightarrow> (writable fs clean_data_dir \<longrightarrow>
              fst (clean_pets_data L fs raw_data_dir clean_data_dir) = Some df
            \<and> files (snd (clean_pets_data L fs raw_data_dir clean_data_dir)) (clean_data_dir, ''pets.csv'')
                = Some (Bytes (csv_of L df)))
        \<and> (\<not> writable fs clean_data_dir \<longrightarrow>
              clean_pets_data L fs raw_data_dir clean_data_dir = (None, fs)))
   \<and> (bind_err (read_excel fs (raw_data_dir, ''services.xlsx'') 5 False [1, 2, 3, 4, 5, 7]) (services_frame L) = Inr df
      \<longrightarrow> (writable fs clean_data_dir \<longrightarrow>
              fst (clean_services_data L fs raw_data_dir clean_data_dir) = Some df
            \<and> files (snd (clean_services_data L fs raw_data_dir clean_data_dir)) (clean_data_dir, ''services.csv'')
                = Some (Bytes (csv_of L df)))
        \<and> (\<not> writable fs clean_data_dir \<longrightarrow>
              clean_services_data L fs raw_data_dir clean_data_dir = (None, fs)))
   \<and> (bind_err (read_excel fs (raw_data_dir, ''revenue.xlsx'') 5 False [1, 2, 3, 4, 5, 6, 7, 8, 10, 11])
         (revenue_frame L) = Inr df
      \<longrightarrow> (writable fs clean_data_dir \<longrightarrow>
              fst (clean_revenue_data L fs raw_data_dir clean_data_dir) = Some df
            \<and> files (snd (clean_revenue_data L fs raw_data_dir clean_data_dir)) (clean_data_dir, ''revenue.csv'')
                = Some (Bytes (csv_of L df)))
        \<and> (\<not> writable fs clean_data_dir \<longrightarrow>
              clean_revenue_data L fs raw_data_dir clean_data_dir = (None, fs)))"
  unfolding clean_clients_data_def clean_pets_data_def clean_services_data_def clean_revenue_data_def
  using op_saved by blast

theorem clean_persists_or_returns_none_witness:
  "bind_err (read_excel sample_fs (''data/raw/20251227'', ''pets.xlsx'') 4 False [1, 2, 3, 4, 5, 7])
       (pets_frame sample_pandas)
     = Inr \<lparr>columns = [''pet_name'', ''code'', ''creation_date'', ''status'', ''type'', ''client_phone''],
            rows = [[Txt ''Rex'', Txt ''P-3'', dec5, Txt ''Active'', Txt ''Dog'', Txt ''201234567'']]\<rparr>
   \<and> writable sample_fs ''data/clean/20251227''
   \<and> files (snd (clean_pets_data sample_pandas sample_fs ''data/raw/20251227'' ''data/clean/20251227''))
        (''data/clean/20251227'', ''pets.csv'')
     = Some (Bytes (sample_csv
         \<lparr>columns = [''pet_name'', ''code'', ''creation_date'', ''status'', ''type'', ''client_phone''],
          rows = [[Txt ''Rex'', Txt ''P-3'', dec5, Txt ''Active'', Txt ''Dog'', Txt ''201234567'']]\<rparr>))
   \<and> \<not> writable readonly_fs ''data/clean/20251227''
   \<and> clean_pets_data sample_pandas readonly_fs ''data/raw/20251227'' ''data/clean/20251227'' = (None, readonly_fs)"
proof -
  let ?df = "\<lparr>columns = [''pet_name'', ''code'', ''creation_date'', ''status'', ''type'', ''client_phone''],
            rows = [[Txt ''Rex'', Txt ''P-3'', dec5, Txt ''Active'', Txt ''Dog'', Txt ''201234567'']]\<rparr>"
  have a: "bind_err (read_excel sample_fs (''data/raw/20251227'', ''pets.xlsx'') 4 False [1, 2, 3, 4, 5, 7])
       (pets_frame sample_pandas) = Inr ?df"
    by code_simp
  have b: "bind_err (read_excel readonly_fs (''data/raw/20251227'', ''pets.xlsx'') 4 False [1, 2, 3, 4, 5, 7])
       (pets_frame sample_pandas) = Inr ?df"
    by code_simp
  have c: "writable sample_fs ''data/clean/20251227''" by (simp add: sample_fs_def)
  have d: "\<not> writable readonly_fs ''data/clean/20251227''" by (simp add: readonly_fs_def)
  have e: "csv_of sample_pandas = sample_csv" by (simp add: sample_pandas_def)
  from clean_persists_or_returns_none
    [of sample_fs "''data/raw/20251227''" sample_pandas ?df "''data/clean/20251227''"] a c e
  have f: "files (snd (clean_pets_data sample_pandas sample_fs ''data/raw/20251227'' ''data/clean/20251227''))
        (''data/clean/20251227'', ''pets.csv'') = Some (Bytes (sample_csv ?df))"
    by simp
  from clean_persists_or_returns_none
    [of readonly_fs "''data/raw/20251227''" sample_pandas ?df "''data/clean/20251227''"] b d
  have g: "clean_pets_data sample_pandas readonly_fs ''data/raw/20251227'' ''data/clean/20251227'' = (None, readonly_fs)"
    by simp
  show ?thesis using a c d f g by simp
qed

text \<open>
  The claim as stated, that the table is still returned when persistence fails, is false:
  on a store where the clients export parses and the clean directory cannot be written
  to, \<open>clean_clients_data\<close> returns \<open>None\<close>.
\<close>

theorem persistence_failure_counterexample:
  "bind_err (read_excel readonly_fs (''data/raw/20251227'', ''clients.xlsx'') 5 True [1, 2, 3, 4, 5])
       (clients_frame sample_pandas)
     = Inr \<lparr>columns = [''name'', ''id'', ''phone'', ''creation_date'', ''status''],
            rows = [[Txt ''Mona'', Txt ''C-17'', Txt ''201234567'', dec5, Txt ''Active''],
                    [Txt ''Omar'', Txt ''C-18'', Txt ''+20 100 1234567'', dec5, Txt ''Active'']]\<rparr>
   \<and> \<not> writable readonly_fs ''data/clean/20251227''
   \<and> fst (clean_clients_data sample_pandas readonly_fs ''data/raw/20251227'' ''data/clean/20251227'') = None"
  by code_simp

subsection \<open>Missing files\<close>

lemma clients_store:
  "writable (snd (clean_clients_data L fs raw clean)) = writable fs
   \<and> (\<forall>d n. n \<noteq> ''clients.csv'' \<longrightarrow> files (snd (clean_clients_data L fs raw clean)) (d, n) = files fs (d, n))"
  unfolding clean_clients_data_def by (rule op_store)

lemma pets_store:
  "writable (snd (clean_pets_data L fs raw clean)) = writable fs
   \<and> (\<forall>d n. n \<noteq> ''pets.csv'' \<longrightarrow> files (snd (clean_pets_data L fs raw clean)) (d, n) = files fs (d, n))"
  unfolding clean_pets_data_def by (rule op_store)

lemma services_store:
  "writable (snd (clean_services_data L fs raw clean)) = writable fs
   \<and> (\<forall>d n. n \<noteq> ''services.csv'' \<longrightarrow> files (snd (clean_services_data L fs raw clean)) (d, n) = files fs (d, n))"
  unfolding clean_services_data_def by (rule op_store)

lemma pets_cong:
  "files fs' (raw, ''pets.xlsx'') = files fs (raw, ''pets.xlsx'') \<Longrightarrow> writable fs' = writable fs
     \<Longrightarrow> fst (clean_pets_data L fs' raw clean) = fst (clean_pets_data L fs raw clean)"
  unfolding clean_pets_data_def by (rule op_cong)

lemma services_cong:
  "files fs' (raw, ''services.xlsx'') = files fs (raw, ''services.xlsx'') \<Longrightarrow> writable fs' = writable fs
     \<Longrightarrow> fst (clean_services_data L fs' raw clean) = fst (clean_services_data L fs raw clean)"
  unfolding clean_services_data_def by (rule op_cong)

lemma revenue_cong:
  "files fs' (raw, ''revenue.xlsx'') = files fs (raw, ''revenue.xlsx'') \<Longrightarrow> writable fs' = writable fs
     \<Longrightarrow> fst (clean_revenue_data L fs' raw clean) = fst (clean_revenue_data L fs raw clean)"
  unfolding clean_revenue_data_def by (rule op_cong)

lemma main_components:
  assumes "is_dir fs (D @ ''/raw/'' @ ts)"
  shows "\<exists>fs4. main L fs D ts =
           Inr (\<lparr>clients_df = fst (clean_clients_data L fs (D @ ''/raw/'' @ ts) (D @ ''/clean/'' @ ts)),
                 pets_df = fst (clean_pets_data L fs (D @ ''/raw/'' @ ts) (D @ ''/clean/'' @ ts)),
                 services_df = fst (clean_services_data L fs (D @ ''/raw/'' @ ts) (D @ ''/clean/'' @ ts)),
                 revenue_df = fst (clean_revenue_data L fs (D @ ''/raw/'' @ ts) (D @ ''/clean/'' @ ts)),
                 inventory_df = None, expenses_df = None\<rparr>, fs4)"
proof -
  define raw where "raw = D @ ''/raw/'' @ ts"
  define clean where "clean = D @ ''/clean/'' @ ts"
  define fs1 where "fs1 = snd (clean_clients_data L fs raw clean)"
  define fs2 where "fs2 = snd (clean_pets_data L fs1 raw clean)"
  define fs3 where "fs3 = snd (clean_services_data L fs2 raw clean)"
  have s1: "writable fs1 = writable fs"
    "files fs1 (raw, ''pets.xlsx'') = files fs (raw, ''pets.xlsx'')"
    "files fs1 (raw, ''services.xlsx'') = files fs (raw, ''services.xlsx'')"
    "files fs1 (raw, ''revenue.xlsx'') = files fs (raw, ''revenue.xlsx'')"
    unfolding fs1_def using clients_store [of L fs raw clean] by simp_all
  have s2: "writable fs2 = writable fs1"
    "files fs2 (raw, ''services.xlsx'') = files fs1 (raw, ''services.xlsx'')"
    "files fs2 (raw, ''revenue.xlsx'') = files fs1 (raw, ''revenue.xlsx'')"
    unfolding fs2_def using pets_store [of L fs1 raw clean] by simp_all
  have s3: "writable fs3 = writable fs2"
    "files fs3 (raw, ''revenue.xlsx'') = files fs2 (raw, ''revenue.xlsx'')"
    unfolding fs3_def using services_store [of L fs2 raw clean] by simp_all
  have p: "fst (clean_pets_data L fs1 raw clean) = fst (clean_pets_data L fs raw clean)"
    by (rule pets_cong) (simp_all only: s1)
  have s: "fst (clean_services_data L fs2 raw clean) = fst (clean_services_data L fs raw clean)"
    by (rule services_cong) (simp_all only: s1 s2)
  have r: "fst (clean_revenue_data L fs3 raw clean) = fst (clean_revenue_data L fs raw clean)"
    by (rule revenue_cong) (simp_all only: s1 s2 s3)
  have "main L fs D ts =
      Inr (\<lparr>clients_df = fst (clean_clients_data L fs raw clean),
            pets_df = fst (clean_pets_data L fs1 raw clean),
            services_df = fst (clean_services_data L fs2 raw clean),
            revenue_df = fst (clean_revenue_data L fs3 raw clean),
            inventory_df = None, expenses_df = None\<rparr>, snd (clean_revenue_data L fs3 raw clean))"
    using assms
    unfolding main_def Let_def split_beta fs1_def fs2_def fs3_def raw_def clean_def by simp
  then show ?thesis
    unfolding p s r unfolding raw_def clean_def by blast
qed

text \<open>
  Claim C3. A cleaning operation whose raw file is absent returns \<open>None\<close> and leaves the
  store as it was; nothing is raised, the result being a value. What an operation
  returns depends on its own raw file and on whether the clean directory can be written
  to, not on any other file of the store. In \<open>main\<close>, once the raw directory exists, each
  of the four results is what the operation returns when run alone on the initial store,
  whatever the other three files are; the expenses and inventory results are \<open>None\<close>,
  there being no operation for them.
\<close>

theorem missing_raw_file_gives_none:
  "(files fs (raw_data_dir, ''clients.xlsx'') = None
      \<longrightarrow> clean_clients_data L fs raw_data_dir clean_data_dir = (None, fs))
   \<and> (files fs (raw_data_dir, ''pets.xlsx'') = None
      \<longrightarrow> clean_pets_data L fs raw_data_dir clean_data_dir = (None, fs))
   \<and> (files fs (raw_data_dir, ''services.xlsx'') = None
      \<longrightarrow> clean_services_data L fs raw_data_dir clean_data_dir = (None, fs))
   \<and> (files fs (raw_data_dir, ''revenue.xlsx'') = None
      \<longrightarrow> clean_revenue_data L fs raw_data_dir clean_data_dir = (None, fs))
   \<and> (files fs' (raw_data_dir, ''clients.xlsx'') = files fs (raw_data_dir, ''clients.xlsx'')
        \<and> writable fs' = writable fs
      \<longrightarrow> fst (clean_clients_data L fs' raw_data_dir clean_data_dir)
          = fst (clean_clients_data L fs raw_data_dir clean_data_dir))
   \<and> (files fs' (raw_data_dir, ''pets.xlsx'') = files fs (raw_data_dir, ''pets.xlsx'')
        \<and> writable fs' = writable fs
      \<longrightarrow> fst (clean_pets_data L fs' raw_data_dir clean_data_dir)
          = fst (clean_pets_data L fs raw_data_dir clean_data_dir))
   \<and> (files fs' (raw_data_dir, ''services.xlsx'') = files fs (raw_data_dir, ''services.xlsx'')
        \<and> writable fs' = writable fs
      \<longrightarrow> fst (clean_services_data L fs' raw_data_dir clean_data_dir)
          = fst (clean_services_data L fs raw_data_dir clean_data_dir))
   \<and> (files fs' (raw_data_dir, ''revenue.xlsx'') = files fs (raw_data_dir, ''revenue.xlsx'')
        \<and> writable fs' = writable fs
      \<longrightarrow> fst (clean_revenue_data L fs' raw_data_dir clean_data_dir)
          = fst (clean_revenue_data L fs raw_data_dir clean_data_dir))
   \<and> (is_dir fs (DATASETS_DIR @ ''/raw/'' @ timestamp)
      \<longrightarrow> (\<exists>fs4. main L fs DATASETS_DIR timestamp =
             Inr (\<lparr>clients_df = fst (clean_clients_data L fs (DATASETS_DIR @ ''/raw/'' @ timestamp)
                                       (DATASETS_DIR @ ''/clean/'' @ timestamp)),
                   pets_df = fst (clean_pets_data L fs (DATASETS_DIR @ ''/raw/'' @ timestamp)
                                       (DATASETS_DIR @ ''/clean/'' @ timestamp)),
                   services_df = fst (clean_services_data L fs (DATASETS_DIR @ ''/raw/'' @ timestamp)
                                       (DATASETS_DIR @ ''/clean/'' @ timestamp)),
                   revenue_df = fst (clean_revenue_data L fs (DATASETS_DIR @ ''/raw/'' @ timestamp)
                                       (DATASETS_DIR @ ''/clean/'' @ timestamp)),
                   inventory_df = None, expenses_df = None\<rparr>, fs4)))"
proof -
  have a: "files fs (raw_data_dir, ''clients.xlsx'') = None
      \<Longrightarrow> clean_clients_data L fs raw_data_dir clean_data_dir = (None, fs)"
    unfolding clean_clients_data_def by (rule op_absent)
  have b: "files fs (raw_data_dir, ''pets.xlsx'') = None
      \<Longrightarrow> clean_pets_data L fs raw_data_dir clean_data_dir = (None, fs)"
    unfolding clean_pets_data_def by (rule op_absent)
  have c: "files fs (raw_data_dir, ''services.xlsx'') = None
      \<Longrightarrow> clean_services_data L fs raw_data_dir clean_data_dir = (None, fs)"
    unfolding clean_services_data_def by (rule op_absent)
  have d: "files fs (raw_data_dir, ''revenue.xlsx'') = None
      \<Longrightarrow> clean_revenue_data L fs raw_data_dir clean_data_dir = (None, fs)"
    unfolding clean_revenue_data_def by (rule op_absent)
  have a': "files fs' (raw_data_dir, ''clients.xlsx'') = files fs (raw_data_dir, ''clients.xlsx'')
      \<Longrightarrow> writable fs' = writable fs
      \<Longrightarrow> fst (clean_clients_data L fs' raw_data_dir clean_data_dir)
          = fst (clean_clients_data L fs raw_data_dir clean_data_dir)"
    unfolding clean_clients_data_def by (rule op_cong)
  have b': "files fs' (raw_data_dir, ''pets.xlsx'') = files fs (raw_data_dir, ''pets.xlsx'')
      \<Longrightarrow> writable fs' = writable fs
      \<Longrightarrow> fst (clean_pets_data L fs' raw_data_dir clean_data_dir)
          = fst (clean_pets_data L fs raw_data_dir clean_data_dir)"
    unfolding clean_pets_data_def by (rule op_cong)
  have c': "files fs' (raw_data_dir, ''services.xlsx'') = files fs (raw_data_dir, ''services.xlsx'')
      \<Longrightarrow> writable fs' = writable fs
      \<Longrightarrow> fst (clean_services_data L fs' raw_data_dir clean_data_dir)
          = fst (clean_services_data L fs raw_data_dir clean_data_dir)"
    unfolding clean_services_data_def by (rule op_cong)
  have d': "files fs' (raw_data_dir, ''revenue.xlsx'') = files fs (raw_data_dir, ''revenue.xlsx'')
      \<Longrightarrow> writable fs' = writable fs
      \<Longrightarrow> fst (clean_revenue_data L fs' raw_data_dir clean_data_dir)
          = fst (clean_revenue_data L fs raw_data_dir clean_data_dir)"
    unfolding clean_revenue_data_def by (rule op_cong)
  show ?thesis
    using a b c d a' b' c' d' main_components [of fs DATASETS_DIR timestamp L]
    by (intro conjI impI) blast+
qed

theorem missing_raw_file_gives_none_witness:
  "files no_pets_fs (''data/raw/20251227'', ''pets.xlsx'') = None
   \<and> clean_pets_data sample_pandas no_pets_fs ''data/raw/20251227'' ''data/clean/20251227'' = (None, no_pets_fs)
   \<and> files sample_fs (''data/raw/20251227'', ''revenue.xlsx'') = files no_pets_fs (''data/raw/20251227'', ''revenue.xlsx'')
   \<and> writable sample_fs = writable no_pets_fs
   \<and> fst (clean_revenue_data sample_pandas sample_fs ''data/raw/20251227'' ''data/clean/20251227'')
       = fst (clean_revenue_data sample_pandas no_pets_fs ''data/raw/20251227'' ''data/clean/20251227'')
   \<and> is_dir no_pets_fs (''data'' @ ''/raw/'' @ ''20251227'')
   \<and> (\<exists>fs4. main sample_pandas no_pets_fs ''data'' ''20251227'' =
         Inr (\<lparr>clients_df = fst (clean_clients_data sample_pandas no_pets_fs ''data/raw/20251227'' ''data/clean/20251227''),
               pets_df = None,
               services_df = fst (clean_services_data sample_pandas no_pets_fs ''data/raw/20251227'' ''data/clean/20251227''),
               revenue_df = fst (clean_revenue_data sample_pandas no_pets_fs ''data/raw/20251227'' ''data/clean/20251227''),
               inventory_df = None, expenses_df = None\<rparr>, fs4))"
proof -
  have a: "files no_pets_fs (''data/raw/20251227'', ''pets.xlsx'') = None"
    by (simp add: no_pets_fs_def)
  have b: "files sample_fs (''data/raw/20251227'', ''revenue.xlsx'')
      = files no_pets_fs (''data/raw/20251227'', ''revenue.xlsx'')"
    by (simp add: no_pets_fs_def)
  have c: "writable sample_fs = writable no_pets_fs"
    by (simp add: no_pets_fs_def)
  have d: "is_dir no_pets_fs (''data'' @ ''/raw/'' @ ''20251227'')"
    by (simp add: no_pets_fs_def sample_fs_def)
  note t = missing_raw_file_gives_none
    [of no_pets_fs "''data/raw/20251227''" sample_pandas "''data/clean/20251227''" sample_fs
        "''data''" "''20251227''"]
  have e: "clean_pets_data sample_pandas no_pets_fs ''data/raw/20251227'' ''data/clean/20251227'' = (None, no_pets_fs)"
    using t a by blast
  have f: "fst (clean_revenue_data sample_pandas sample_fs ''data/raw/20251227'' ''data/clean/20251227'')
       = fst (clean_revenue_data sample_pandas no_pets_fs ''data/raw/20251227'' ''data/clean/20251227'')"
    using t b c by blast
  have "\<exists>fs4. main sample_pandas no_pets_fs ''data'' ''20251227'' =
         Inr (\<lparr>clients_df = fst (clean_clients_data sample_pandas no_pets_fs (''data'' @ ''/raw/'' @ ''20251227'') (''data'' @ ''/clean/'' @ ''20251227'')),
               pets_df = fst (clean_pets_data sample_pandas no_pets_fs (''data'' @ ''/raw/'' @ ''20251227'') (''data'' @ ''/clean/'' @ ''20251227'')),
               services_df = fst (clean_services_data sample_pandas no_pets_fs (''data'' @ ''/raw/'' @ ''20251227'') (''data'' @ ''/clean/'' @ ''20251227'')),
               revenue_df = fst (clean_revenue_data sample_pandas no_pets_fs (''data'' @ ''/raw/'' @ ''20251227'') (''data'' @ ''/clean/'' @ ''20251227'')),
               inventory_df = None, expenses_df = None\<rparr>, fs4)"
    using t d by blast
  then have g: "\<exists>fs4. main sample_pandas no_pets_fs ''data'' ''20251227'' =
         Inr (\<lparr>clients_df = fst (clean_clients_data sample_pandas no_pets_fs ''data/raw/20251227'' ''data/clean/20251227''),
               pets_df = None,
               services_df = fst (clean_services_data sample_pandas no_pets_fs ''data/raw/20251227'' ''data/clean/20251227''),
               revenue_df = fst (clean_revenue_data sample_pandas no_pets_fs ''data/raw/20251227'' ''data/clean/20251227''),
               inventory_df = None, expenses_df = None\<rparr>, fs4)"
    using e by simp
  show ?thesis using a b c d e f g by blast
qed

subsection \<open>Phone fields\<close>

lemma str_split_first: "str_get0 (str_split sep s) = Txt (takeWhile (\<lambda>x. x \<noteq> sep) s)"
  by (induction s) (auto split: list.splits)

lemma phone_digits_eq: "phone_digits L c = Txt (takeWhile (\<lambda>x. x \<noteq> CHR ''.'') (astype_str L c))"
  by (simp add: phone_digits_def str_split_first)

lemma clients_frame_rows:
  assumes "clients_frame L body = Inr df"
  shows "rows df = map (\<lambda>r. r[3 := projr (to_datetime L (r ! 3)), 2 := phone_digits L (r ! 2)]) body"
  using assms
  by (auto simp: clients_frame_def bind_err_Inr_iff assign_col_Inr_iff o_def eval_nat_numeral)

lemma pets_frame_rows:
  assumes "pets_frame L body = Inr df"
  shows "rows df = map (\<lambda>r. r[2 := projr (to_datetime L (r ! 2)), 5 := phone_digits L (r ! 5)]) body"
  using assms
  by (auto simp: pets_frame_def bind_err_Inr_iff assign_col_Inr_iff o_def eval_nat_numeral)

lemma clients_phone_column:
  assumes "clean_clients_data L fs raw clean = (Some df, fs')"
  shows "\<exists>body. read_excel fs (raw, ''clients.xlsx'') 5 True [1, 2, 3, 4, 5] = Inr body
           \<and> map (\<lambda>r. r ! 2) (rows df) = map (\<lambda>r. phone_digits L (r ! 2)) body"
proof -
  obtain body where body: "read_excel fs (raw, ''clients.xlsx'') 5 True [1, 2, 3, 4, 5] = Inr body"
    and frame: "clients_frame L body = Inr df"
    using assms
    by (auto simp: clean_clients_data_def bind_err_def save_cleaned_def split: sum.splits)
  have len: "\<And>r. r \<in> set body \<Longrightarrow> length r = 5"
    using read_excel_row_length [OF body] by simp
  have "map (\<lambda>r. r ! 2) (rows df) = map (\<lambda>r. phone_digits L (r ! 2)) body"
    unfolding clients_frame_rows [OF frame] using len by (simp add: o_def)
  then show ?thesis using body by blast
qed

lemma pets_phone_column:
  assumes "clean_pets_data L fs raw clean = (Some df, fs')"
  shows "\<exists>body. read_excel fs (raw, ''pets.xlsx'') 4 False [1, 2, 3, 4, 5, 7] = Inr body
           \<and> map (\<lambda>r. r ! 5) (rows df) = map (\<lambda>r. phone_digits L (r ! 5)) body"
proof -
  obtain body where body: "read_excel fs (raw, ''pets.xlsx'') 4 False [1, 2, 3, 4, 5, 7] = Inr body"
    and frame: "pets_frame L body = Inr df"
    using assms
    by (auto simp: clean_pets_data_def bind_err_def save_cleaned_def split: sum.splits)
  have len: "\<And>r. r \<in> set body \<Longrightarrow> length r = 6"
    using read_excel_row_length [OF body] by simp
  have "map (\<lambda>r. r ! 5) (rows df) = map (\<lambda>r. phone_digits L (r ! 5)) body"
    unfolding pets_frame_rows [OF frame] using len by (simp add: o_def)
  then show ?thesis using body by blast
qed

text \<open>
  Claim C5, as the code has it. In the clean clients and pets tables the phone column
  is, row by row, the text of the cell read, cut at its first dot: a text with no dot
  in it, which is \<open>201234567\<close> whenever the cell prints as \<open>201234567.0\<close>. The code does
  not check that what is left are digits.
\<close>

theorem phone_fields_cut_at_first_dot:
  "(clean_clients_data L fs raw_data_dir clean_data_dir = (Some df, fs')
      \<longrightarrow> (\<exists>body. read_excel fs (raw_data_dir, ''clients.xlsx'') 5 True [1, 2, 3, 4, 5] = Inr body
             \<and> map (\<lambda>r. r ! 2) (rows df) = map (\<lambda>r. phone_digits L (r ! 2)) body))
   \<and> (clean_pets_data L fs raw_data_dir clean_data_dir = (Some df, fs')
      \<longrightarrow> (\<exists>body. read_excel fs (raw_data_dir, ''pets.xlsx'') 4 False [1, 2, 3, 4, 5, 7] = Inr body
             \<and> map (\<lambda>r. r ! 5) (rows df) = map (\<lambda>r. phone_digits L (r ! 5)) body))
   \<and> (\<exists>s. phone_digits L c = Txt s \<and> CHR ''.'' \<notin> set s
          \<and> s = takeWhile (\<lambda>x. x \<noteq> CHR ''.'') (astype_str L c))
   \<and> (astype_str L c = ''201234567.0'' \<longrightarrow> phone_digits L c = Txt ''201234567'')"
proof -
  have "CHR ''.'' \<notin> set (takeWhile (\<lambda>x. x \<noteq> CHR ''.'') (astype_str L c))"
    by (auto dest: set_takeWhileD)
  then have a: "\<exists>s. phone_digits L c = Txt s \<and> CHR ''.'' \<notin> set s
          \<and> s = takeWhile (\<lambda>x. x \<noteq> CHR ''.'') (astype_str L c)"
    by (simp add: phone_digits_eq)
  have b: "astype_str L c = ''201234567.0'' \<longrightarrow> phone_digits L c = Txt ''201234567''"
    by (simp add: phone_digits_eq)
  show ?thesis
    using a b clients_phone_column [of L fs raw_data_dir clean_data_dir df fs']
      pets_phone_column [of L fs raw_data_dir clean_data_dir df fs']
    by blast
qed

theorem phone_fields_cut_at_first_dot_witness:
  "map (\<lambda>r. r ! 2)
      (rows \<lparr>columns = [''name'', ''id'', ''phone'', ''creation_date'', ''status''],
             rows = [[Txt ''Mona'', Txt ''C-17'', Txt ''201234567'', dec5, Txt ''Active''],
                     [Txt ''Omar'', Txt ''C-18'', Txt ''+20 100 1234567'', dec5, Txt ''Active'']]\<rparr>)
     = [Txt ''201234567'', Txt ''+20 100 1234567'']
   \<and> fst (clean_clients_data sample_pandas sample_fs ''data/raw/20251227'' ''data/clean/20251227'')
     = Some \<lparr>columns = [''name'', ''id'', ''phone'', ''creation_date'', ''status''],
             rows = [[Txt ''Mona'', Txt ''C-17'', Txt ''201234567'', dec5, Txt ''Active''],
                     [Txt ''Omar'', Txt ''C-18'', Txt ''+20 100 1234567'', dec5, Txt ''Active'']]\<rparr>
   \<and> astype_str sample_pandas (Txt ''201234567.0'') = ''201234567.0''
   \<and> phone_digits sample_pandas (Txt ''201234567.0'') = Txt ''201234567''"
proof -
  let ?run = "clean_clients_data sample_pandas sample_fs ''data/raw/20251227'' ''data/clean/20251227''"
  let ?df = "\<lparr>columns = [''name'', ''id'', ''phone'', ''creation_date'', ''status''],
             rows = [[Txt ''Mona'', Txt ''C-17'', Txt ''201234567'', dec5, Txt ''Active''],
                     [Txt ''Omar'', Txt ''C-18'', Txt ''+20 100 1234567'', dec5, Txt ''Active'']]\<rparr>"
  have a: "fst ?run = Some ?df" by code_simp
  then have b: "?run = (Some ?df, snd ?run)" by (metis prod.collapse)
  have c: "astype_str sample_pandas (Txt ''201234567.0'') = ''201234567.0''" by simp
  note t = phone_fields_cut_at_first_dot
    [of sample_pandas sample_fs "''data/raw/20251227''" "''data/clean/20251227''" ?df "snd ?run"
        "Txt ''201234567.0''"]
  have d: "phone_digits sample_pandas (Txt ''201234567.0'') = Txt ''201234567''"
    using t c by blast
  have "\<exists>body. read_excel sample_fs (''data/raw/20251227'', ''clients.xlsx'') 5 True [1, 2, 3, 4, 5] = Inr body
           \<and> map (\<lambda>r. r ! 2) (rows ?df) = map (\<lambda>r. phone_digits sample_pandas (r ! 2)) body"
    using t b by blast
  then show ?thesis using a c d by simp
qed

text \<open>
  The claim as stated, that phone fields are digit strings, is false: a phone entered as
  \<open>+20 100 1234567\<close> is in the clean clients table as it was, and is not a digit string.
\<close>

theorem phone_not_digits_counterexample:
  "fst (clean_clients_data sample_pandas sample_fs ''data/raw/20251227'' ''data/clean/20251227'')
     = Some \<lparr>columns = [''name'', ''id'', ''phone'', ''creation_date'', ''status''],
             rows = [[Txt ''Mona'', Txt ''C-17'', Txt ''201234567'', dec5, Txt ''Active''],
                     [Txt ''Omar'', Txt ''C-18'', Txt ''+20 100 1234567'', dec5, Txt ''Active'']]\<rparr>
   \<and> \<not> all_digits ''+20 100 1234567''"
  by code_simp

section \<open>The classification of responses\<close>

lemma fetch_data_result:
  assumes "map_of ENDPOINTS endpoint_key = Some config"
    and "net (last (sent (snd (fetch_data net w token endpoint_key dynamic_params)))) = Some r"
  shows "fst (fetch_data net w token endpoint_key dynamic_params) = handle_response r"
proof -
  obtain p w1 where pp: "prepare_params w config dynamic_params = (p, w1)"
    by (cases "prepare_params w config dynamic_params")
  let ?req = "\<lparr>req_url = endpoint config, req_headers = auth_headers token, req_params = heap w1 p\<rparr>"
  have s: "last (sent (snd (fetch_data net w token endpoint_key dynamic_params))) = ?req"
    using assms(1) pp by (auto simp: fetch_data_def Let_def split: option.splits)
  then have "net ?req = Some r" using assms(2) by simp
  then show ?thesis
    using assms(1) pp by (simp add: fetch_data_def Let_def)
qed

text \<open>
  Claim C4, as the code has it. For a configured endpoint and a response with status 200:
  a body that starts with the two bytes \<open>PK\<close> gives a file package holding the body,
  whatever the declared content type; otherwise, when the declared content type
  contains \<open>json\<close>, the result is a JSON package holding the decoded body if the body
  decodes, and \<open>None\<close> if it does not; any other response gives a file package holding
  the body.
\<close>

theorem fetch_data_classifies_response:
  assumes "map_of ENDPOINTS endpoint_key = Some config"
    and "net (last (sent (snd (fetch_data net w token endpoint_key dynamic_params)))) = Some r"
    and "status_code r = 200"
  shows "fst (fetch_data net w token endpoint_key dynamic_params) =
           (if startswith (content r) ''PK'' then Some (FilePackage (content r))
            else if str_contains ''json'' (dict_get (resp_headers r) ''Content-Type'' [])
              then map_option JsonPackage (json_body r)
            else Some (FilePackage (content r)))"
  using fetch_data_result [where net = net, OF assms(1,2)] assms(3)
  by (simp add: handle_response_def Let_def split: option.splits)

theorem fetch_data_classifies_response_witness:
  "fst (fetch_data (\<lambda>q. Some zip_as_json) init_world ''t0k'' ''clients'' last_days)
     = Some (FilePackage (content zip_as_json))
   \<and> str_contains ''json'' (dict_get (resp_headers zip_as_json) ''Content-Type'' [])
   \<and> fst (fetch_data (\<lambda>q. Some json_list) init_world ''t0k'' ''clients'' last_days)
     = Some (JsonPackage (JList [JBool True]))"
proof -
  have k: "map_of ENDPOINTS ''clients''
      = Some \<lparr>endpoint = BASE_URL @ ''/exportreports/clientsreport'', params_ref = Some 0\<rparr>"
    by (simp add: ENDPOINTS_def)
  have z: "status_code zip_as_json = 200" "startswith (content zip_as_json) ''PK''"
    "str_contains ''json'' (dict_get (resp_headers zip_as_json) ''Content-Type'' [])"
    by (simp_all add: zip_as_json_def dict_get_def)
  have j: "status_code json_list = 200" "\<not> startswith (content json_list) ''PK''"
    "str_contains ''json'' (dict_get (resp_headers json_list) ''Content-Type'' [])"
    "json_body json_list = Some (JList [JBool True])"
    by (simp_all add: json_list_def dict_get_def)
  have a: "fst (fetch_data (\<lambda>q. Some zip_as_json) init_world ''t0k'' ''clients'' last_days)
     = Some (FilePackage (content zip_as_json))"
    using fetch_data_classifies_response [where net = "\<lambda>q. Some zip_as_json" and w = init_world
        and token = "''t0k''" and dynamic_params = last_days and r = zip_as_json, OF k] z
    by simp
  have b: "fst (fetch_data (\<lambda>q. Some json_list) init_world ''t0k'' ''clients'' last_days)
     = Some (JsonPackage (JList [JBool True]))"
    using fetch_data_classifies_response [where net = "\<lambda>q. Some json_list" and w = init_world
        and token = "''t0k''" and dynamic_params = last_days and r = json_list, OF k] j
    by simp
  show ?thesis using a b z by simp
qed

text \<open>
  The claim as stated, that every response of status 200 whose content type contains
  \<open>json\<close> and whose body does not start with \<open>PK\<close> becomes a JSON package, is false: for
  an HTML error page labelled as JSON the decoding raises, the \<open>except\<close> of
  \<open>fetch_data\<close> catches it, and the result is \<open>None\<close>.
\<close>

theorem undecodable_json_counterexample:
  "status_code html_as_json = 200
   \<and> \<not> startswith (content html_as_json) ''PK''
   \<and> str_contains ''json'' (dict_get (resp_headers html_as_json) ''Content-Type'' [])
   \<and> fst (fetch_data (\<lambda>q. Some html_as_json) init_world ''t0k'' ''clients'' last_days) = None"
  by (simp add: html_as_json_def dict_get_def fetch_data_def ENDPOINTS_def handle_response_def
        prepare_params_def alloc_def Let_def)

section \<open>Properties of the date filter\<close>

lemma col_pos_None_iff: "col_pos xs c = None \<longleftrightarrow> c \<notin> set xs"
  by (induction xs) auto

lemma in_range_iff:
  "in_range from_date to_date c
     \<longleftrightarrow> (\<exists>t. c = Stamp t \<and> date_le from_date (ts_date t) \<and> date_le (ts_date t) to_date)"
  by (cases c) auto

lemma date_le_refl: "date_le d d"
  by (simp add: date_le_def)

text \<open>
  Where the filter does what is expected of it. A table that is empty or has no column
  of the given name is returned as it is. On any other table whose date column holds
  datetimes, one of them at least a date, the filter keeps, in their order, exactly the
  rows whose date \<open>d\<close> satisfies \<open>from_date \<le> d \<le> to_date\<close> in the order of calendar
  dates, the time of day being ignored; both bounds are included, \<open>date_le\<close> being
  reflexive. A row without a date is left out.
\<close>

lemma filter_df_dated_rows:
  "(df_empty df \<or> date_col \<notin> set (columns df) \<longrightarrow> filter_df from_date to_date df date_col = Inr df)
   \<and> (\<not> df_empty df \<and> col_pos (columns df) date_col = Some i
        \<and> (\<forall>r \<in> set (rows df). is_datetime (r ! i))
        \<and> (\<exists>r \<in> set (rows df). r ! i \<noteq> Missing)
      \<longrightarrow> filter_df from_date to_date df date_col =
            Inr (df\<lparr>rows := filter (\<lambda>r. \<exists>t. r ! i = Stamp t \<and> date_le from_date (ts_date t)
                                             \<and> date_le (ts_date t) to_date) (rows df)\<rparr>))
   \<and> date_le from_date from_date \<and> date_le to_date to_date"
proof -
  have a: "df_empty df \<or> date_col \<notin> set (columns df) \<longrightarrow> filter_df from_date to_date df date_col = Inr df"
    by (simp add: filter_df_def)
  have b: "\<not> df_empty df \<and> col_pos (columns df) date_col = Some i
        \<and> (\<forall>r \<in> set (rows df). is_datetime (r ! i))
        \<and> (\<exists>r \<in> set (rows df). r ! i \<noteq> Missing)
      \<longrightarrow> filter_df from_date to_date df date_col =
            Inr (df\<lparr>rows := filter (\<lambda>r. \<exists>t. r ! i = Stamp t \<and> date_le from_date (ts_date t)
                                             \<and> date_le (ts_date t) to_date) (rows df)\<rparr>)"
  proof (intro impI, elim conjE)
    assume ne: "\<not> df_empty df" and pos: "col_pos (columns df) date_col = Some i"
      and dt: "\<forall>r \<in> set (rows df). is_datetime (r ! i)"
      and some: "\<exists>r \<in> set (rows df). r ! i \<noteq> Missing"
    from pos have "date_col \<in> set (columns df)"
      using col_pos_None_iff [of "columns df" date_col] by auto
    moreover have "\<not> list_all (\<lambda>r. r ! i = Missing) (rows df)"
      using some by (simp add: list_all_iff)
    ultimately show "filter_df from_date to_date df date_col =
            Inr (df\<lparr>rows := filter (\<lambda>r. \<exists>t. r ! i = Stamp t \<and> date_le from_date (ts_date t)
                                             \<and> date_le (ts_date t) to_date) (rows df)\<rparr>)"
      using ne pos dt by (simp add: filter_df_def list_all_iff in_range_iff)
  qed
  show ?thesis using a b date_le_refl by blast
qed

lemma filter_df_december:
  "filter_df (Date 2025 12 10) (Date 2025 12 20) december ''creation_date''
       = Inr \<lparr>columns = [''name'', ''creation_date''],
              rows = [[Txt ''b'', Stamp (Timestamp (Date 2025 12 10) 0)],
                      [Txt ''c'', Stamp (Timestamp (Date 2025 12 20) 86399000000000)]]\<rparr>
   \<and> filter_df (Date 2025 12 10) (Date 2025 12 20) december ''date'' = Inr december
   \<and> filter_df (Date 2025 12 10) (Date 2025 12 20) \<lparr>columns = [''name'', ''creation_date''], rows = []\<rparr>
        ''creation_date'' = Inr \<lparr>columns = [''name'', ''creation_date''], rows = []\<rparr>"
proof -
  have a: "\<not> df_empty december" by (simp add: december_def df_empty_def)
  have b: "col_pos (columns december) ''creation_date'' = Some 1" by (simp add: december_def)
  have c: "\<forall>r \<in> set (rows december). is_datetime (r ! 1)" by (simp add: december_def)
  have c': "\<exists>r \<in> set (rows december). r ! 1 \<noteq> Missing" by (simp add: december_def)
  have d: "''date'' \<notin> set (columns december)" by (simp add: december_def)
  have e: "df_empty \<lparr>columns = [''name'', ''creation_date''], rows = []\<rparr>" by (simp add: df_empty_def)
  note t = filter_df_dated_rows [of december "''creation_date''" "Date 2025 12 10" "Date 2025 12 20" 1]
  have "filter_df (Date 2025 12 10) (Date 2025 12 20) december ''creation_date'' =
          Inr (december\<lparr>rows := filter (\<lambda>r. \<exists>t. r ! 1 = Stamp t \<and> date_le (Date 2025 12 10) (ts_date t)
                                             \<and> date_le (ts_date t) (Date 2025 12 20)) (rows december)\<rparr>)"
    using t a b c c' by blast
  then have f: "filter_df (Date 2025 12 10) (Date 2025 12 20) december ''creation_date''
       = Inr \<lparr>columns = [''name'', ''creation_date''],
              rows = [[Txt ''b'', Stamp (Timestamp (Date 2025 12 10) 0)],
                      [Txt ''c'', Stamp (Timestamp (Date 2025 12 20) 86399000000000)]]\<rparr>"
    by (simp add: december_def date_le_def)
  have g: "filter_df (Date 2025 12 10) (Date 2025 12 20) december ''date'' = Inr december"
    using filter_df_dated_rows [of december "''date''" "Date 2025 12 10" "Date 2025 12 20" 0] d by blast
  have h: "filter_df (Date 2025 12 10) (Date 2025 12 20) \<lparr>columns = [''name'', ''creation_date''], rows = []\<rparr>
        ''creation_date'' = Inr \<lparr>columns = [''name'', ''creation_date''], rows = []\<rparr>"
    using filter_df_dated_rows [of "\<lparr>columns = [''name'', ''creation_date''], rows = []\<rparr>" "''creation_date''"
        "Date 2025 12 10" "Date 2025 12 20" 0] e by blast
  show ?thesis using f g h by simp
qed

text \<open>
  Claim C6 fails on the code at one kind of table. On a table that is not empty and
  has the date column, with datetimes in it but no date in any row, no row has a date in
  the range, so the filtered table the claim describes is the table without its rows;
  \<open>filter_df\<close> raises \<open>TypeError\<close> instead, for every range.
\<close>

theorem filter_df_raises_without_dates:
  assumes "\<not> df_empty df"
    and "col_pos (columns df) date_col = Some i"
    and "\<forall>r \<in> set (rows df). r ! i = Missing"
  shows "filter_df from_date to_date df date_col = Inl TypeError
         \<and> filter (\<lambda>r. \<exists>t. r ! i = Stamp t \<and> date_le from_date (ts_date t)
                            \<and> date_le (ts_date t) to_date) (rows df) = []"
proof -
  from assms(2) have "date_col \<in> set (columns df)"
    using col_pos_None_iff [of "columns df" date_col] by auto
  moreover have "list_all (\<lambda>r. is_datetime (r ! i)) (rows df)"
    using assms(3) by (simp add: list_all_iff)
  moreover have "list_all (\<lambda>r. r ! i = Missing) (rows df)"
    using assms(3) by (simp add: list_all_iff)
  ultimately have "filter_df from_date to_date df date_col = Inl TypeError"
    using assms(1,2) by (simp add: filter_df_def)
  moreover have "filter (\<lambda>r. \<exists>t. r ! i = Stamp t \<and> date_le from_date (ts_date t)
                            \<and> date_le (ts_date t) to_date) (rows df) = []"
    using assms(3) by (simp add: filter_empty_conv)
  ultimately show ?thesis by simp
qed

theorem filter_df_raises_without_dates_witness:
  "\<not> df_empty undated
   \<and> col_pos (columns undated) ''creation_date'' = Some 1
   \<and> list_all (\<lambda>r. r ! 1 = Missing) (rows undated)
   \<and> filter_df (Date 2025 12 10) (Date 2025 12 20) undated ''creation_date'' = Inl TypeError"
proof -
  have a: "\<not> df_empty undated" by (simp add: undated_def df_empty_def)
  have b: "col_pos (columns undated) ''creation_date'' = Some 1" by (simp add: undated_def)
  have c: "\<forall>r \<in> set (rows undated). r ! 1 = Missing" by (simp add: undated_def)
  from filter_df_raises_without_dates [OF a b c, of "Date 2025 12 10" "Date 2025 12 20"]
  have "filter_df (Date 2025 12 10) (Date 2025 12 20) undated ''creation_date'' = Inl TypeError"
    by simp
  then show ?thesis using a b c by (simp add: list_all_iff)
qed

end
